theory Spec2Isabelle
  imports Complex_Main
begin

section \<open>Python values, exceptions and string built-ins\<close>

text \<open>
  The development embeds four modules of chiadog: \<^verbatim>\<open>src/notifier/__init__.py\<close>,
  \<^verbatim>\<open>src/chia_log/api_handler.py\<close>, \<^verbatim>\<open>src/chia_log/parsers/wallet_added_coin_parser.py\<close>
  and \<^verbatim>\<open>src/chia_log/handlers/partial_handler.py\<close>.

  Conventions. A Python \<^verbatim>\<open>str\<close> is a \<^typ>\<open>string\<close> of ASCII characters; a Python
  \<^verbatim>\<open>int\<close> is an \<^typ>\<open>int\<close>; \<^verbatim>\<open>time.time()\<close> is a \<^typ>\<open>real\<close> passed in by the
  caller (exact arithmetic stands for the floating-point clock). A function that can
  raise returns \<open>exn + 'a\<close>, with \<open>Inl\<close> the exception. Functions of third-party and
  standard-library modules that the code calls (\<^verbatim>\<open>re.search\<close> on a configured pattern,
  \<^verbatim>\<open>json.loads\<close>, \<^verbatim>\<open>jsonLogic\<close>, \<^verbatim>\<open>cgi.parse_header\<close>, \<^verbatim>\<open>dateutil\<close>'s parser) are
  parameters of the model, and every theorem holds for all of them. The one pattern
  that is part of the source, the wallet parser's, is embedded with its matcher.
\<close>

text \<open>Instances of Python's \<^verbatim>\<open>Exception\<close> class.\<close>

datatype exn =
    KeyError string
  | TypeError
  | AttributeError
  | ValueError
  | OtherException string

text \<open>
  The values \<^verbatim>\<open>json.loads\<close> and \<^verbatim>\<open>jsonLogic\<close> produce: \<^verbatim>\<open>None\<close>, booleans, integers,
  strings, lists, and dictionaries with string keys (an association list read with
  \<^const>\<open>map_of\<close>). Floating-point numbers are left out.
\<close>

datatype pyval =
    PyNone
  | PyBool bool
  | PyInt int
  | PyStr string
  | PyList "pyval list"
  | PyDict "(string \<times> pyval) list"

text \<open>\<^verbatim>\<open>s.startswith(p)\<close>.\<close>

definition startswith :: "string \<Rightarrow> string \<Rightarrow> bool" where
  "startswith s p = (take (length p) s = p)"

text \<open>\<^verbatim>\<open>s.upper()\<close> and \<^verbatim>\<open>s.lower()\<close> on ASCII strings.\<close>

definition upper_char :: "char \<Rightarrow> char" where
  "upper_char c =
     (case map_of (zip ''abcdefghijklmnopqrstuvwxyz'' ''ABCDEFGHIJKLMNOPQRSTUVWXYZ'') c of
        None \<Rightarrow> c
      | Some u \<Rightarrow> u)"

definition lower_char :: "char \<Rightarrow> char" where
  "lower_char c =
     (case map_of (zip ''ABCDEFGHIJKLMNOPQRSTUVWXYZ'' ''abcdefghijklmnopqrstuvwxyz'') c of
        None \<Rightarrow> c
      | Some l \<Rightarrow> l)"

definition upper :: "string \<Rightarrow> string" where
  "upper s = map upper_char s"

definition lower :: "string \<Rightarrow> string" where
  "lower s = map lower_char s"


section \<open>Events and the Notifier base class (src/notifier/\_\_init\_\_.py)\<close>

text \<open>\<^verbatim>\<open>MINIMUM_LAUNCH_SECONDS_BEFORE_ALERTING_ABOUT_BEING_OFFLINE = 30 * 60\<close>\<close>

definition MINIMUM_LAUNCH_SECONDS_BEFORE_ALERTING_ABOUT_BEING_OFFLINE :: real where
  "MINIMUM_LAUNCH_SECONDS_BEFORE_ALERTING_ABOUT_BEING_OFFLINE = 30 * 60"

datatype EventPriority = LOW | NORMAL | HIGH

datatype EventType = KEEPALIVE | USER | DAILY_STATS | PLOTDECREASE | PLOTINCREASE

datatype EventService = HARVESTER | FARMER | FULL_NODE | DAILY | WALLET

text \<open>The \<^verbatim>\<open>.name\<close> attribute of an enum member.\<close>

fun EventPriority_name :: "EventPriority \<Rightarrow> string" where
  "EventPriority_name LOW = ''LOW''"
| "EventPriority_name NORMAL = ''NORMAL''"
| "EventPriority_name HIGH = ''HIGH''"

fun EventType_name :: "EventType \<Rightarrow> string" where
  "EventType_name KEEPALIVE = ''KEEPALIVE''"
| "EventType_name USER = ''USER''"
| "EventType_name DAILY_STATS = ''DAILY_STATS''"
| "EventType_name PLOTDECREASE = ''PLOTDECREASE''"
| "EventType_name PLOTINCREASE = ''PLOTINCREASE''"

fun EventService_name :: "EventService \<Rightarrow> string" where
  "EventService_name HARVESTER = ''HARVESTER''"
| "EventService_name FARMER = ''FARMER''"
| "EventService_name FULL_NODE = ''FULL_NODE''"
| "EventService_name DAILY = ''DAILY''"
| "EventService_name WALLET = ''WALLET''"

text \<open>
  The dataclass \<^verbatim>\<open>Event\<close>. The message is a \<^verbatim>\<open>str\<close> for the Notifier; the ingestion
  endpoint stores whatever value the JSON body holds, hence the type parameter.
\<close>

record 'm Event =
  type :: EventType
  priority :: EventPriority
  service :: EventService
  message :: 'm

text \<open>
  The \<^verbatim>\<open>config\<close> dictionary of a Notifier, with the keys the base class reads. A flag
  that is absent is \<open>None\<close> (\<^verbatim>\<open>config.get(key, False)\<close> supplies the default). The
  \<^verbatim>\<open>ignore\<close> and \<^verbatim>\<open>allow\<close> entries are dictionaries from field name to string.
\<close>

type_synonym RuleSpec = "string \<rightharpoonup> string"

record Config =
  daily_stats :: "bool option"
  wallet_events :: "bool option"
  decreasing_plot_events :: "bool option"
  increasing_plot_events :: "bool option"
  ignore :: "RuleSpec option"
  allow :: "RuleSpec option"

text \<open>\<^verbatim>\<open>config.get(key, default)\<close> on an entry.\<close>

definition get_or :: "'a option \<Rightarrow> 'a \<Rightarrow> 'a" where
  "get_or entry dflt = (case entry of None \<Rightarrow> dflt | Some v \<Rightarrow> v)"

record Notifier =
  program_launch_time :: real
  title_prefix :: string
  config :: Config
  conn_timeout_seconds :: nat
  notification_types :: "EventType list"
  notification_services :: "EventService list"

text \<open>
  \<^verbatim>\<open>Notifier.__init__(self, title_prefix, config)\<close>; the first argument is the value of
  \<^verbatim>\<open>time.time()\<close> at construction. Each \<^verbatim>\<open>append\<close> is one update of the object.
\<close>

definition Notifier_init :: "real \<Rightarrow> string \<Rightarrow> Config \<Rightarrow> Notifier" where
  "Notifier_init now title cfg =
     (let self0 = \<lparr>program_launch_time = now, title_prefix = title, config = cfg,
                   conn_timeout_seconds = 10,
                   notification_types = [USER],
                   notification_services = [HARVESTER, FARMER, FULL_NODE]\<rparr>;
          daily_stats_flag = get_or (daily_stats cfg) False;
          wallet_events_flag = get_or (wallet_events cfg) False;
          decreasing_plot_events_flag = get_or (decreasing_plot_events cfg) False;
          increasing_plot_events_flag = get_or (increasing_plot_events cfg) False;
          self1 = (if daily_stats_flag
                   then self0\<lparr>notification_types := notification_types self0 @ [DAILY_STATS],
                              notification_services := notification_services self0 @ [DAILY]\<rparr>
                   else self0);
          self2 = (if wallet_events_flag
                   then self1\<lparr>notification_services := notification_services self1 @ [WALLET]\<rparr>
                   else self1);
          self3 = (if decreasing_plot_events_flag
                   then self2\<lparr>notification_types := notification_types self2 @ [PLOTDECREASE]\<rparr>
                   else self2);
          self4 = (if increasing_plot_events_flag
                   then self3\<lparr>notification_types := notification_types self3 @ [PLOTINCREASE]\<rparr>
                   else self3)
      in self4)"

text \<open>
  The library functions the filters call: \<^verbatim>\<open>re.search(pattern, string, re.M|re.I)\<close>
  (whether a match was found), \<^verbatim>\<open>json.loads\<close> and \<^verbatim>\<open>jsonLogic(rule, data)\<close>.
\<close>

record Lib =
  re_search :: "string \<Rightarrow> string \<Rightarrow> exn + bool"
  json_loads :: "string \<Rightarrow> exn + pyval"
  jsonLogic :: "pyval \<Rightarrow> pyval \<Rightarrow> exn + pyval"

text \<open>
  The \<^verbatim>\<open>data\<close> dictionary handed to \<^verbatim>\<open>jsonLogic\<close>: the enum names lower-cased, the
  message as it is.
\<close>

definition compound_data :: "string Event \<Rightarrow> pyval" where
  "compound_data event =
     PyDict [(''type'', PyStr (lower (EventType_name (type event)))),
             (''priority'', PyStr (lower (EventPriority_name (priority event)))),
             (''service'', PyStr (lower (EventService_name (service event)))),
             (''message'', PyStr (message event))]"

text \<open>
  The body of the \<^verbatim>\<open>try\<close> block of \<^verbatim>\<open>should_ignore_event\<close>: \<open>Inl ex\<close> when a
  statement raises, \<open>Inr (Some v)\<close> when a \<^verbatim>\<open>return v\<close> is reached, \<open>Inr None\<close> when
  control leaves the block at its end.
\<close>

definition ignore_rule :: "Lib \<Rightarrow> RuleSpec \<Rightarrow> string Event \<Rightarrow> exn + pyval option" where
  "ignore_rule L ign event =
     (if (case ign ''type'' of None \<Rightarrow> False | Some v \<Rightarrow> v = EventType_name (type event))
      then Inr (Some (PyBool True))
      else if (case ign ''priority'' of None \<Rightarrow> False
               | Some v \<Rightarrow> v = EventPriority_name (priority event))
      then Inr (Some (PyBool True))
      else if (case ign ''service'' of None \<Rightarrow> False
               | Some v \<Rightarrow> v = EventService_name (service event))
      then Inr (Some (PyBool True))
      else
        (case (case ign ''message'' of None \<Rightarrow> Inr False
               | Some pat \<Rightarrow> re_search L pat (message event)) of
           Inl ex \<Rightarrow> Inl ex
         | Inr True \<Rightarrow> Inr (Some (PyBool True))
         | Inr False \<Rightarrow>
             (case ign ''compound'' of
                None \<Rightarrow> Inr None
              | Some text \<Rightarrow>
                  (case json_loads L text of
                     Inl ex \<Rightarrow> Inl ex
                   | Inr rule \<Rightarrow>
                       (case jsonLogic L rule (compound_data event) of
                          Inl ex \<Rightarrow> Inl ex
                        | Inr result \<Rightarrow> Inr (Some result))))))"

text \<open>
  \<^verbatim>\<open>Notifier.should_ignore_event(self, event)\<close>; \<open>now\<close> is the value of \<^verbatim>\<open>time.time()\<close>
  at the call. The \<^verbatim>\<open>except Exception\<close> clause logs and falls through to the final
  \<^verbatim>\<open>return False\<close>.
\<close>

definition should_ignore_event :: "Lib \<Rightarrow> Notifier \<Rightarrow> real \<Rightarrow> string Event \<Rightarrow> exn + pyval" where
  "should_ignore_event L self now event =
     (if program_launch_time self + MINIMUM_LAUNCH_SECONDS_BEFORE_ALERTING_ABOUT_BEING_OFFLINE \<ge> now
         \<and> ((EventService_name (service event) = ''HARVESTER''
               \<and> startswith (message event) ''Your harvester appears to be offline!'')
             \<or> startswith (message event) ''Experiencing networking issues?''
             \<or> startswith (message event) ''Cha-ching!'')
      then Inr (PyBool True)
      else
        (case ignore (config self) of
           None \<Rightarrow> Inr (PyBool False)
         | Some ign \<Rightarrow>
             (case ignore_rule L ign event of
                Inr (Some v) \<Rightarrow> Inr v
              | Inr None \<Rightarrow> Inr (PyBool False)
              | Inl ex \<Rightarrow> Inr (PyBool False))))"

text \<open>The body of the \<^verbatim>\<open>try\<close> block of \<^verbatim>\<open>should_allow_event\<close>.\<close>

definition allow_rule :: "Lib \<Rightarrow> RuleSpec \<Rightarrow> string Event \<Rightarrow> exn + pyval option" where
  "allow_rule L alw event =
     (if (case alw ''type'' of None \<Rightarrow> False | Some v \<Rightarrow> v = EventType_name (type event))
      then Inr (Some (PyBool True))
      else if (case alw ''priority'' of None \<Rightarrow> False
               | Some v \<Rightarrow> v = EventPriority_name (priority event))
      then Inr (Some (PyBool True))
      else if (case alw ''service'' of None \<Rightarrow> False
               | Some v \<Rightarrow> v = EventService_name (service event))
      then Inr (Some (PyBool True))
      else
        (case (case alw ''message'' of None \<Rightarrow> Inr False
               | Some pat \<Rightarrow> re_search L pat (message event)) of
           Inl ex \<Rightarrow> Inl ex
         | Inr True \<Rightarrow> Inr (Some (PyBool True))
         | Inr False \<Rightarrow>
             (case alw ''compound'' of
                None \<Rightarrow> Inr None
              | Some text \<Rightarrow>
                  (case json_loads L text of
                     Inl ex \<Rightarrow> Inl ex
                   | Inr rule \<Rightarrow>
                       (case jsonLogic L rule (compound_data event) of
                          Inl ex \<Rightarrow> Inl ex
                        | Inr result \<Rightarrow> Inr (Some result))))))"

text \<open>\<^verbatim>\<open>Notifier.should_allow_event(self, event)\<close>.\<close>

definition should_allow_event :: "Lib \<Rightarrow> Notifier \<Rightarrow> string Event \<Rightarrow> exn + pyval" where
  "should_allow_event L self event =
     (case allow (config self) of
        None \<Rightarrow> Inr (PyBool True)
      | Some alw \<Rightarrow>
          (case allow_rule L alw event of
             Inr (Some v) \<Rightarrow> Inr v
           | Inr None \<Rightarrow> Inr (PyBool False)
           | Inl ex \<Rightarrow> Inr (PyBool False)))"


text \<open>
  The two halves of the grace-period test at the head of \<^verbatim>\<open>should_ignore_event\<close>, named
  for use in statements: the clock is at most 30 minutes past the launch, and the event
  is one of the alerts a restart produces.
\<close>

definition within_grace_period :: "Notifier \<Rightarrow> real \<Rightarrow> bool" where
  "within_grace_period self now = (now \<le> program_launch_time self + 1800)"

definition restart_noise :: "string Event \<Rightarrow> bool" where
  "restart_noise event =
     ((service event = HARVESTER
         \<and> startswith (message event) ''Your harvester appears to be offline!'')
      \<or> startswith (message event) ''Experiencing networking issues?''
      \<or> startswith (message event) ''Cha-ching!'')"

text \<open>
  The set of restart alerts as the specification words it: each of the three messages
  counts only for the HARVESTER service.
\<close>

definition restart_noise_as_specified :: "string Event \<Rightarrow> bool" where
  "restart_noise_as_specified event =
     (service event = HARVESTER
      \<and> (startswith (message event) ''Your harvester appears to be offline!''
         \<or> startswith (message event) ''Experiencing networking issues?''
         \<or> startswith (message event) ''Cha-ching!''))"

text \<open>
  A flat rule specification matches an event, in the words of the specification as
  amended: one of \<^verbatim>\<open>type\<close>, \<^verbatim>\<open>priority\<close>, \<^verbatim>\<open>service\<close> is present and equal, character
  for character, to the name of the event's enum member, or \<^verbatim>\<open>message\<close> is present and
  the case-insensitive multi-line search finds it in the event's message.
\<close>

definition flat_match :: "Lib \<Rightarrow> RuleSpec \<Rightarrow> string Event \<Rightarrow> bool" where
  "flat_match L spec event =
     (spec ''type'' = Some (EventType_name (type event))
      \<or> spec ''priority'' = Some (EventPriority_name (priority event))
      \<or> spec ''service'' = Some (EventService_name (service event))
      \<or> (case spec ''message'' of
            None \<Rightarrow> False
          | Some pat \<Rightarrow> re_search L pat (message event) = Inr True))"

text \<open>
  The same with the comparison the specification describes: the value of the rule is
  compared with the name of the enum member without regard to case.
\<close>

definition flat_match_case_insensitive :: "Lib \<Rightarrow> RuleSpec \<Rightarrow> string Event \<Rightarrow> bool" where
  "flat_match_case_insensitive L spec event =
     (map_option upper (spec ''type'') = Some (EventType_name (type event))
      \<or> map_option upper (spec ''priority'') = Some (EventPriority_name (priority event))
      \<or> map_option upper (spec ''service'') = Some (EventService_name (service event))
      \<or> (case spec ''message'' of
            None \<Rightarrow> False
          | Some pat \<Rightarrow> re_search L pat (message event) = Inr True))"

text \<open>Python's truth value of a value, as \<^verbatim>\<open>if v:\<close> tests it.\<close>

fun truthy :: "pyval \<Rightarrow> bool" where
  "truthy PyNone = False"
| "truthy (PyBool b) = b"
| "truthy (PyInt i) = (i \<noteq> 0)"
| "truthy (PyStr s) = (s \<noteq> [])"
| "truthy (PyList xs) = (xs \<noteq> [])"
| "truthy (PyDict kvs) = (kvs \<noteq> [])"

text \<open>
  Modelled from the spec: the filtering policy that each concrete channel applies per
  event (the concrete channels are not among the source files). In the words of the
  specification: if \<open>shouldIgnore\<close> then suppress; else if not \<open>shouldAllow\<close> then
  suppress; else deliver.
\<close>

definition delivered :: "Lib \<Rightarrow> Notifier \<Rightarrow> real \<Rightarrow> string Event \<Rightarrow> bool" where
  "delivered L self now event =
     (case should_ignore_event L self now event of
        Inl ex \<Rightarrow> False
      | Inr ign \<Rightarrow>
          (if truthy ign then False
           else (case should_allow_event L self event of
                   Inl ex \<Rightarrow> False
                 | Inr alw \<Rightarrow> truthy alw)))"

text \<open>
  Inputs for the closed examples: a library in which every call raises, a Notifier
  launched at time 0 with a given configuration, and an event.
\<close>

definition raising_Lib :: Lib where
  "raising_Lib =
     \<lparr>re_search = (\<lambda>pat s. Inl (OtherException ''re.error'')),
      json_loads = (\<lambda>s. Inl ValueError),
      jsonLogic = (\<lambda>rule data. Inl (OtherException ''jsonLogic''))\<rparr>"

definition rules_Config :: "RuleSpec option \<Rightarrow> RuleSpec option \<Rightarrow> Config" where
  "rules_Config ign alw =
     \<lparr>daily_stats = None, wallet_events = None, decreasing_plot_events = None,
      increasing_plot_events = None, ignore = ign, allow = alw\<rparr>"


section \<open>Python built-ins used by the ingestion endpoint and the parser\<close>

text \<open>
  \<^verbatim>\<open>int(s)\<close> for a string: surrounding whitespace (space, tab, line feed, vertical tab,
  form feed, carriage return) is skipped, a sign may lead, and the rest is decimal
  digits, single underscores allowed between digits; anything else raises
  \<^verbatim>\<open>ValueError\<close>, and so does a text of more digits than the interpreter's limit for the
  conversion (\<^verbatim>\<open>sys.get_int_max_str_digits()\<close>, 4300 unless it is reconfigured).
\<close>

definition is_int_space :: "char \<Rightarrow> bool" where
  "is_int_space c = (c \<in> set [CHR '' '', CHR 0x09, CHR 0x0A, CHR 0x0B, CHR 0x0C, CHR 0x0D])"

definition int_max_str_digits :: nat where
  "int_max_str_digits = 4300"

definition is_digit :: "char \<Rightarrow> bool" where
  "is_digit c = (c \<in> set ''0123456789'')"

definition digit_value :: "char \<Rightarrow> int" where
  "digit_value c =
     (case map_of (zip ''0123456789'' [0, 1, 2, 3, 4, 5, 6, 7, 8, 9]) c of
        None \<Rightarrow> 0
      | Some d \<Rightarrow> d)"

definition skip_int_space :: "string \<Rightarrow> string" where
  "skip_int_space s = rev (dropWhile is_int_space (rev (dropWhile is_int_space s)))"

fun int_digits :: "int \<Rightarrow> string \<Rightarrow> int option" where
  "int_digits acc [] = Some acc"
| "int_digits acc [c] = (if is_digit c then Some (10 * acc + digit_value c) else None)"
| "int_digits acc (c # d # ds) =
     (if is_digit c then int_digits (10 * acc + digit_value c) (d # ds)
      else if c = CHR ''_'' \<and> is_digit d then int_digits (10 * acc + digit_value d) ds
      else None)"

definition py_int :: "string \<Rightarrow> exn + int" where
  "py_int s =
     (let t = skip_int_space s;
          negative = startswith t ''-'';
          u = (if startswith t ''-'' \<or> startswith t ''+'' then drop 1 t else t)
      in case u of
           [] \<Rightarrow> Inl ValueError
         | d # ds \<Rightarrow>
             (if is_digit d
              then (case int_digits (digit_value d) ds of
                      None \<Rightarrow> Inl ValueError
                    | Some n \<Rightarrow>
                        (if length (filter is_digit u) > int_max_str_digits
                         then Inl ValueError
                         else Inr (if negative then - n else n)))
              else Inl ValueError))"


text \<open>\<^verbatim>\<open>key in value\<close> for a string key.\<close>

fun substring_of :: "string \<Rightarrow> string \<Rightarrow> bool" where
  "substring_of p [] = (p = [])"
| "substring_of p (c # s) = (startswith (c # s) p \<or> substring_of p s)"

fun py_contains :: "string \<Rightarrow> pyval \<Rightarrow> exn + bool" where
  "py_contains k (PyDict kvs) = Inr (map_of kvs k \<noteq> None)"
| "py_contains k (PyList xs) = Inr (PyStr k \<in> set xs)"
| "py_contains k (PyStr s) = Inr (substring_of k s)"
| "py_contains k PyNone = Inl TypeError"
| "py_contains k (PyBool b) = Inl TypeError"
| "py_contains k (PyInt i) = Inl TypeError"

text \<open>\<^verbatim>\<open>value[key]\<close> for a string key.\<close>

fun py_getitem :: "pyval \<Rightarrow> string \<Rightarrow> exn + pyval" where
  "py_getitem (PyDict kvs) k = (case map_of kvs k of None \<Rightarrow> Inl (KeyError k) | Some v \<Rightarrow> Inr v)"
| "py_getitem v k = Inl TypeError"

text \<open>\<^verbatim>\<open>value.upper()\<close>: only a string has the method.\<close>

fun py_upper :: "pyval \<Rightarrow> exn + string" where
  "py_upper (PyStr s) = Inr (upper s)"
| "py_upper v = Inl AttributeError"

text \<open>Lookup of an enum member by name, \<^verbatim>\<open>EventType[name]\<close>: \<^verbatim>\<open>KeyError\<close> when no member has the name.\<close>

definition EventType_getitem :: "string \<Rightarrow> exn + EventType" where
  "EventType_getitem name =
     (case find (\<lambda>m. EventType_name m = name)
             [KEEPALIVE, USER, DAILY_STATS, PLOTDECREASE, PLOTINCREASE] of
        None \<Rightarrow> Inl (KeyError name)
      | Some m \<Rightarrow> Inr m)"

definition EventPriority_getitem :: "string \<Rightarrow> exn + EventPriority" where
  "EventPriority_getitem name =
     (case find (\<lambda>m. EventPriority_name m = name) [LOW, NORMAL, HIGH] of
        None \<Rightarrow> Inl (KeyError name)
      | Some m \<Rightarrow> Inr m)"

definition EventService_getitem :: "string \<Rightarrow> exn + EventService" where
  "EventService_getitem name =
     (case find (\<lambda>m. EventService_name m = name)
             [HARVESTER, FARMER, FULL_NODE, DAILY, WALLET] of
        None \<Rightarrow> Inl (KeyError name)
      | Some m \<Rightarrow> Inr m)"

text \<open>Sequencing of statements that can raise.\<close>

definition bind_exn :: "exn + 'a \<Rightarrow> ('a \<Rightarrow> exn + 'b) \<Rightarrow> exn + 'b" where
  "bind_exn m f = (case m of Inl ex \<Rightarrow> Inl ex | Inr v \<Rightarrow> f v)"


section \<open>The ingestion endpoint (src/chia\_log/api\_handler.py)\<close>

text \<open>
  A request as \<^verbatim>\<open>RequestHandler\<close> sees it: the headers (names in lower case; a header
  that was not sent reads as \<^verbatim>\<open>None\<close>) and the bytes \<^verbatim>\<open>rfile\<close> holds.
\<close>

record Request =
  headers :: "string \<rightharpoonup> string"
  rfile :: string

text \<open>
  What the handler does with a request: the status line and headers it sends, the body
  it writes, and the argument of each call of \<^verbatim>\<open>notify_manager.process_events\<close>.
\<close>

record Handled =
  status :: nat
  sent_headers :: "(string \<times> string) list"
  wfile :: string
  process_events_calls :: "pyval Event list list"

text \<open>\<^verbatim>\<open>self.send_response(400); self.end_headers(); return\<close>\<close>

definition bad_request :: Handled where
  "bad_request = \<lparr>status = 400, sent_headers = [], wfile = [], process_events_calls = []\<rparr>"

text \<open>\<^verbatim>\<open>self.rfile.read(length)\<close>: a negative length reads to the end.\<close>

definition rfile_read :: "string \<Rightarrow> int \<Rightarrow> string" where
  "rfile_read bytes n = (if n < 0 then bytes else take (nat n) bytes)"

text \<open>
  \<^verbatim>\<open>RequestHandler.do_POST(self)\<close>. The parameters are \<^verbatim>\<open>cgi.parse_header\<close> (its first
  component, the content type) and \<^verbatim>\<open>json.loads\<close>. \<open>Inl ex\<close> is an exception that leaves
  \<^verbatim>\<open>do_POST\<close>: no response has been sent at that point.
\<close>

definition do_POST ::
  "(string \<Rightarrow> string) \<Rightarrow> (string \<Rightarrow> exn + pyval) \<Rightarrow> Request \<Rightarrow> exn + Handled" where
  "do_POST parse_header loads self =
     bind_exn (case headers self ''content-type'' of
                 None \<Rightarrow> Inl TypeError
               | Some line \<Rightarrow> Inr (parse_header line)) (\<lambda>ctype.
     if ctype \<noteq> ''application/json'' then Inr bad_request
     else
     bind_exn (case headers self ''content-length'' of
                 None \<Rightarrow> Inl TypeError
               | Some n \<Rightarrow> py_int n) (\<lambda>content_length.
     bind_exn (loads (rfile_read (rfile self) content_length)) (\<lambda>msg.
     bind_exn (py_contains ''type'' msg) (\<lambda>has_type.
     if \<not> has_type then Inr bad_request
     else
     bind_exn (bind_exn (bind_exn (py_getitem msg ''type'') py_upper) EventType_getitem)
       (\<lambda>event_type.
     bind_exn (py_contains ''priority'' msg) (\<lambda>has_priority.
     if \<not> has_priority then Inr bad_request
     else
     bind_exn (bind_exn (bind_exn (py_getitem msg ''priority'') py_upper)
                 EventPriority_getitem)
       (\<lambda>event_priority.
     bind_exn (py_contains ''service'' msg) (\<lambda>has_service.
     if \<not> has_service then Inr bad_request
     else
     bind_exn (bind_exn (bind_exn (py_getitem msg ''service'') py_upper)
                 EventService_getitem)
       (\<lambda>event_service.
     bind_exn (py_contains ''message'' msg) (\<lambda>has_message.
     if \<not> has_message then Inr bad_request
     else
     bind_exn (py_getitem msg ''message'') (\<lambda>message_value.
     Inr \<lparr>status = 200,
          sent_headers = [(''Content-type'', ''application/json'')],
          wfile = ''Event received and notifications sent.'',
          process_events_calls =
            [[\<lparr>type = event_type, priority = event_priority, service = event_service,
               message = message_value\<rparr>]]\<rparr>)))))))))))"

text \<open>
  Inputs for the closed examples: two request bodies, and for each a \<^verbatim>\<open>json.loads\<close> that
  decodes it and raises \<^verbatim>\<open>ValueError\<close> on every other text.
\<close>

definition example_body :: string where
  \<open>example_body = ''{"type":"user","priority":"high","service":"farmer","message":"hello"}''\<close>

definition example_loads :: "string \<Rightarrow> exn + pyval" where
  "example_loads s =
     (if s = example_body
      then Inr (PyDict [(''type'', PyStr ''user''), (''priority'', PyStr ''high''),
                        (''service'', PyStr ''farmer''), (''message'', PyStr ''hello'')])
      else Inl ValueError)"


definition bogus_body :: string where
  \<open>bogus_body = ''{"type":"bogus","priority":"high","service":"farmer","message":"hello"}''\<close>

definition bogus_loads :: "string \<Rightarrow> exn + pyval" where
  "bogus_loads s =
     (if s = bogus_body
      then Inr (PyDict [(''type'', PyStr ''bogus''), (''priority'', PyStr ''high''),
                        (''service'', PyStr ''farmer''), (''message'', PyStr ''hello'')])
      else Inl ValueError)"


section \<open>The partials log handler (src/chia\_log/handlers/partial\_handler.py)\<close>

text \<open>
  \<^verbatim>\<open>PartialParser\<close>, the condition checkers and \<^verbatim>\<open>StatsManager\<close> are collaborators of the
  handler: the parser is a function from the log text to the parsed records, the
  stats manager is its state and its method \<^verbatim>\<open>consume_partial_messages\<close>, and a condition
  checker is an object with a state of its own and a method \<^verbatim>\<open>check\<close> that returns an
  event or \<^verbatim>\<open>None\<close> and the new state. None of them raises.
\<close>

type_synonym ('m, 'e, 's) checker = "('s \<Rightarrow> 'm \<Rightarrow> 'e option \<times> 's) \<times> 's"

text \<open>The calls the handler makes on its collaborators, in the order it makes them.\<close>

datatype 'm call =
    Call_parse string
  | Call_consume_partial_messages "'m list"
  | Call_check nat 'm

text \<open>
  The inner loop \<^verbatim>\<open>for checker in self._cond_checkers\<close> for one record: \<open>j\<close> is the
  position of the next checker in the registration order; the accumulators are the
  list \<^verbatim>\<open>events\<close> and the trace of calls made so far. An \<^verbatim>\<open>Event\<close> object is always true, so
  \<^verbatim>\<open>if event\<close> tests for \<^verbatim>\<open>None\<close>.
\<close>

fun check_loop ::
  "'m \<Rightarrow> nat \<Rightarrow> ('m, 'e, 's) checker list \<Rightarrow> 'e list \<times> 'm call list
     \<Rightarrow> ('m, 'e, 's) checker list \<times> 'e list \<times> 'm call list" where
  "check_loop msg j [] (events, trace) = ([], events, trace)"
| "check_loop msg j ((check, st) # rest) (events, trace) =
     (let (event, st') = check st msg;
          events' = (case event of None \<Rightarrow> events | Some e \<Rightarrow> events @ [e]);
          (rest', out) = check_loop msg (Suc j) rest (events', trace @ [Call_check j msg])
      in ((check, st') # rest', out))"

text \<open>The outer loop \<^verbatim>\<open>for msg in activity_messages\<close>.\<close>

fun message_loop ::
  "'m list \<Rightarrow> ('m, 'e, 's) checker list \<Rightarrow> 'e list \<times> 'm call list
     \<Rightarrow> ('m, 'e, 's) checker list \<times> 'e list \<times> 'm call list" where
  "message_loop [] checkers acc = (checkers, acc)"
| "message_loop (msg # msgs) checkers acc =
     (let (checkers', acc') = check_loop msg 0 checkers acc
      in message_loop msgs checkers' acc')"

record ('m, 'e, 's, 't) Handle_result =
  returned :: "'e list"
  cond_checkers :: "('m, 'e, 's) checker list"
  stats_manager :: "'t option"
  calls :: "'m call list"

text \<open>
  \<^verbatim>\<open>PartialHandler.handle(self, logs, stats_manager)\<close>: the parser's \<^verbatim>\<open>parse\<close>, the stats
  manager's \<^verbatim>\<open>consume_partial_messages\<close>, the registered checkers \<^verbatim>\<open>self._cond_checkers\<close>,
  the log text, and the optional stats manager.
\<close>

definition handle ::
  "(string \<Rightarrow> 'm list) \<Rightarrow> ('t \<Rightarrow> 'm list \<Rightarrow> 't) \<Rightarrow> ('m, 'e, 's) checker list
     \<Rightarrow> string \<Rightarrow> 't option \<Rightarrow> ('m, 'e, 's, 't) Handle_result" where
  "handle partial_parse consume_partial_messages checkers logs stats =
     (let events = [];
          activity_messages = partial_parse logs;
          trace0 = [Call_parse logs];
          (stats', trace1) =
            (case stats of
               None \<Rightarrow> (None, trace0)
             | Some st \<Rightarrow>
                 (Some (consume_partial_messages st activity_messages),
                  trace0 @ [Call_consume_partial_messages activity_messages]));
          (checkers', events', trace2) = message_loop activity_messages checkers (events, trace1)
      in \<lparr>returned = events', cond_checkers = checkers', stats_manager = stats',
          calls = trace2\<rparr>)"

text \<open>
  The fan-out in the words of the specification. The state of a checker after a run of
  records; the event it emits on the record at position \<open>i\<close>; all emitted events,
  ordered by record first and by checker second; and the checks, every checker against
  every record, in the same order.
\<close>

definition state_after :: "('m, 'e, 's) checker \<Rightarrow> 'm list \<Rightarrow> 's" where
  "state_after c msgs = foldl (\<lambda>st msg. snd (fst c st msg)) (snd c) msgs"

definition emitted :: "('m, 'e, 's) checker \<Rightarrow> 'm list \<Rightarrow> nat \<Rightarrow> 'e list" where
  "emitted c msgs i =
     (case fst (fst c (state_after c (take i msgs)) (msgs ! i)) of
        None \<Rightarrow> []
      | Some e \<Rightarrow> [e])"

definition events_in_order :: "('m, 'e, 's) checker list \<Rightarrow> 'm list \<Rightarrow> 'e list" where
  "events_in_order checkers msgs =
     concat (map (\<lambda>i. concat (map (\<lambda>c. emitted c msgs i) checkers)) [0..<length msgs])"

definition checks_in_order :: "nat \<Rightarrow> 'm list \<Rightarrow> 'm call list" where
  "checks_in_order n msgs = concat (map (\<lambda>msg. map (\<lambda>j. Call_check j msg) [0..<n]) msgs)"

text \<open>One step of a checker on one record: its next state, and what it emits.\<close>

definition advance :: "'m \<Rightarrow> ('m, 'e, 's) checker \<Rightarrow> ('m, 'e, 's) checker" where
  "advance msg c = (fst c, snd (fst c (snd c) msg))"

definition emit_now :: "'m \<Rightarrow> ('m, 'e, 's) checker \<Rightarrow> 'e list" where
  "emit_now msg c = (case fst (fst c (snd c) msg) of None \<Rightarrow> [] | Some e \<Rightarrow> [e])"


section \<open>The wallet parser (src/chia\_log/parsers/wallet\_added\_coin\_parser.py)\<close>

text \<open>
  Regular expressions of the shape the parser compiles, and how Python's \<^verbatim>\<open>re\<close> matches
  them: a backtracking search that prefers the left alternative and the longest
  repetition. A star repeats a single-character class; the pattern has two capturing
  groups.
\<close>

datatype regex =
    Lit string
  | AnyChar
  | Star_set "char list"
  | Star_any
  | Star_space
  | Alt regex regex
  | Opt regex
  | Seq regex regex
  | Group1 regex
  | Group2 regex

text \<open>
  The class \<^verbatim>\<open>\s\<close> of a \<^verbatim>\<open>str\<close> pattern, among the ASCII characters: those for which
  \<^verbatim>\<open>str.isspace\<close> holds.
\<close>

definition is_space :: "char \<Rightarrow> bool" where
  "is_space c = (c \<in> set [CHR '' '', CHR 0x09, CHR 0x0A, CHR 0x0B, CHR 0x0C, CHR 0x0D,
                           CHR 0x1C, CHR 0x1D, CHR 0x1E, CHR 0x1F])"

text \<open>
  Greedy repetition of a character class on \<open>s\<close>: as many characters as fit first, then
  one fewer each time the rest of the pattern (the continuation \<open>k\<close>) fails.
\<close>

fun star :: "(char \<Rightarrow> bool) \<Rightarrow> string \<Rightarrow> (string \<Rightarrow> 'r option) \<Rightarrow> 'r option" where
  "star p [] k = k []"
| "star p (c # s) k =
     (if p c
      then (case star p s k of Some r \<Rightarrow> Some r | None \<Rightarrow> k (c # s))
      else k (c # s))"

text \<open>
  \<open>match_here r s g k\<close>: match \<open>r\<close> at the head of \<open>s\<close>; \<open>g\<close> holds the texts of the two
  groups so far; \<open>k\<close> continues with the rest of the input and the groups. The dot does
  not match a newline.
\<close>

fun match_here ::
  "regex \<Rightarrow> string \<Rightarrow> string \<times> string \<Rightarrow> (string \<Rightarrow> string \<times> string \<Rightarrow> 'r option)
     \<Rightarrow> 'r option" where
  "match_here (Lit l) s g k = (if startswith s l then k (drop (length l) s) g else None)"
| "match_here AnyChar s g k =
     (case s of [] \<Rightarrow> None | c # t \<Rightarrow> if c = CHR 0x0A then None else k t g)"
| "match_here (Star_set cs) s g k = star (\<lambda>c. c \<in> set cs) s (\<lambda>t. k t g)"
| "match_here Star_any s g k = star (\<lambda>c. c \<noteq> CHR 0x0A) s (\<lambda>t. k t g)"
| "match_here Star_space s g k = star is_space s (\<lambda>t. k t g)"
| "match_here (Alt a b) s g k =
     (case match_here a s g k of Some r \<Rightarrow> Some r | None \<Rightarrow> match_here b s g k)"
| "match_here (Opt a) s g k =
     (case match_here a s g k of Some r \<Rightarrow> Some r | None \<Rightarrow> k s g)"
| "match_here (Seq a b) s g k = match_here a s g (\<lambda>t g'. match_here b t g' k)"
| "match_here (Group1 a) s g k =
     match_here a s g (\<lambda>t g'. k t (take (length s - length t) s, snd g'))"
| "match_here (Group2 a) s g k =
     match_here a s g (\<lambda>t g'. k t (fst g', take (length s - length t) s))"

text \<open>
  \<^verbatim>\<open>regex.findall(logs)\<close> for a pattern with two groups: the pairs of group texts of the
  non-overlapping matches, found from left to right.
\<close>

fun findall :: "regex \<Rightarrow> string \<Rightarrow> (string \<times> string) list" where
  "findall r s =
     (case match_here r s ([], []) (\<lambda>t g. Some (t, g)) of
        None \<Rightarrow> (case s of [] \<Rightarrow> [] | c # s' \<Rightarrow> findall r s')
      | Some (t, g) \<Rightarrow>
          g # (if length t < length s then findall r t
               else (case s of [] \<Rightarrow> [] | c # s' \<Rightarrow> findall r s')))"

declare findall.simps [simp del]

text \<open>A sequence of patterns, one after the other.\<close>

fun Seqs :: "regex list \<Rightarrow> regex" where
  "Seqs [] = Lit []"
| "Seqs [r] = r"
| "Seqs (r # rs) = Seq r (Seqs rs)"

text \<open>
  The pattern that \<^verbatim>\<open>__init__\<close> compiles,
  \<^verbatim>\<open>([0-9:.T-]*) wallet (?:src|PREFIX).wallet.wallet_(?:state_manager|node).*\<close>
  \<^verbatim>\<open>INFO\s*(?:Adding|Adding record to state manager|request) coin:.*'?amount'?: ([0-9]*)\<close>,
  for a prefix that holds no character special to \<^verbatim>\<open>re\<close> (a fork name such as
  \<^verbatim>\<open>chia\<close>), so that it stands for itself.
\<close>

definition wallet_pattern :: "string \<Rightarrow> regex" where
  "wallet_pattern p =
     Seqs [Group1 (Star_set ''0123456789:.T-''),
           Lit '' wallet '',
           Alt (Lit ''src'') (Lit p),
           AnyChar, Lit ''wallet'', AnyChar, Lit ''wallet_'',
           Alt (Lit ''state_manager'') (Lit ''node''),
           Star_any,
           Lit ''INFO'', Star_space,
           Alt (Lit ''Adding'') (Alt (Lit ''Adding record to state manager'') (Lit ''request'')),
           Lit '' coin:'',
           Star_any,
           Opt (Lit [CHR 0x27]), Lit ''amount'', Opt (Lit [CHR 0x27]), Lit '': '',
           Group2 (Star_set ''0123456789'')]"

record 't WalletAddedCoinMessage =
  timestamp :: 't
  amount_mojos :: int

record WalletAddedCoinParser =
  prefix :: string
  regex :: regex

text \<open>
  \<^verbatim>\<open>WalletAddedCoinParser.__init__(self, config)\<close>: \<^verbatim>\<open>config\<close> is optional, and
  \<^verbatim>\<open>config['prefix']\<close> raises when it is \<^verbatim>\<open>None\<close> or has no such key.
\<close>

definition WalletAddedCoinParser_init ::
  "(string \<rightharpoonup> string) option \<Rightarrow> exn + WalletAddedCoinParser" where
  "WalletAddedCoinParser_init parser_config =
     (case parser_config of
        None \<Rightarrow> Inl TypeError
      | Some cfg \<Rightarrow>
          (case cfg ''prefix'' of
             None \<Rightarrow> Inl (KeyError ''prefix'')
           | Some p \<Rightarrow> Inr \<lparr>prefix = p, regex = wallet_pattern p\<rparr>))"

text \<open>
  The loop \<^verbatim>\<open>for match in matches\<close> of \<^verbatim>\<open>parse\<close>, with the list \<^verbatim>\<open>parsed_messages\<close> as
  accumulator. \<^verbatim>\<open>dateutil_parser.parse\<close> is a parameter. An exception ends the loop and
  the call.
\<close>

fun parse_loop ::
  "(string \<Rightarrow> exn + 't) \<Rightarrow> string \<Rightarrow> (string \<times> string) list
     \<Rightarrow> 't WalletAddedCoinMessage list \<Rightarrow> exn + 't WalletAddedCoinMessage list" where
  "parse_loop dateutil_parse p [] parsed_messages = Inr parsed_messages"
| "parse_loop dateutil_parse p (match # matches) parsed_messages =
     (case py_int (snd match) of
        Inl ex \<Rightarrow> Inl ex
      | Inr mojos0 \<Rightarrow>
          (let mojos =
             (if p = ''chives'' then mojos0 * 10000
              else if p = ''cryptodoge'' then mojos0 * 1000000
              else if p = ''shibgreen'' \<or> p = ''littlelambocoin'' then mojos0 * 1000000000
              else if p = ''stai'' then mojos0 * 1000
              else mojos0)
           in (case dateutil_parse (fst match) of
                 Inl ex \<Rightarrow> Inl ex
               | Inr ts \<Rightarrow>
                   parse_loop dateutil_parse p matches
                     (parsed_messages @ [\<lparr>timestamp = ts, amount_mojos = mojos\<rparr>]))))"

text \<open>\<^verbatim>\<open>WalletAddedCoinParser.parse(self, logs)\<close>.\<close>

definition parse ::
  "(string \<Rightarrow> exn + 't) \<Rightarrow> WalletAddedCoinParser \<Rightarrow> string
     \<Rightarrow> exn + 't WalletAddedCoinMessage list" where
  "parse dateutil_parse self logs =
     parse_loop dateutil_parse (prefix self) (findall (regex self) logs) []"

text \<open>
  The multiplier table of the specification, keyed by the prefix; a prefix that is not
  in the table has the multiplier 1.
\<close>

definition multiplier :: "string \<Rightarrow> int" where
  "multiplier p =
     (case map_of [(''chives'', 10000), (''stai'', 1000), (''cryptodoge'', 1000000),
                   (''shibgreen'', 1000000000), (''littlelambocoin'', 1000000000)] p of
        None \<Rightarrow> 1
      | Some k \<Rightarrow> k)"

text \<open>
  What one match becomes, in the words of the specification: the base amount times the
  multiplier, with the timestamp parsed; and a list of such results read from left to
  right, the first exception ending it.
\<close>

definition convert_match ::
  "(string \<Rightarrow> exn + 't) \<Rightarrow> string \<Rightarrow> string \<times> string \<Rightarrow> exn + 't WalletAddedCoinMessage" where
  "convert_match dateutil_parse p match =
     bind_exn (py_int (snd match)) (\<lambda>base_amount.
     bind_exn (dateutil_parse (fst match)) (\<lambda>ts.
     Inr \<lparr>timestamp = ts, amount_mojos = base_amount * multiplier p\<rparr>))"

fun sequence_exn :: "(exn + 'a) list \<Rightarrow> exn + 'a list" where
  "sequence_exn [] = Inr []"
| "sequence_exn (Inl ex # rs) = Inl ex"
| "sequence_exn (Inr v # rs) = (case sequence_exn rs of Inl ex \<Rightarrow> Inl ex | Inr vs \<Rightarrow> Inr (v # vs))"

text \<open>
  Inputs for the closed examples: a log line of a chives wallet that receives 5 coins, a
  line of a chia wallet cut off after the key of the amount, and a date parser that
  keeps the text.
\<close>

definition coin_line :: string where
  "coin_line =
     ''2021-05-26T12:00:28.253 wallet chives.wallet.wallet_state_manager: INFO     Adding coin: {''
     @ [CHR 0x27] @ ''amount'' @ [CHR 0x27] @ '': 5, '' @ [CHR 0x27] @ ''parent_coin_info''
     @ [CHR 0x27] @ '': 0xccd5bb71}''"

definition cut_line :: string where
  "cut_line =
     ''2021-05-26T12:00:28.253 wallet chia.wallet.wallet_state_manager: INFO     Adding coin: {''
     @ [CHR 0x27] @ ''amount'' @ [CHR 0x27] @ '': ''"

definition keep_text :: "string \<Rightarrow> exn + string" where
  "keep_text s = Inr s"


section \<open>Properties of the Notifier\<close>

subsection \<open>Auxiliary facts\<close>

lemma EventService_name_HARVESTER:
  "(EventService_name s = ''HARVESTER'') = (s = HARVESTER)"
  by (cases s) simp_all

lemma should_ignore_event_cases:
  "should_ignore_event L self now event =
     (if within_grace_period self now \<and> restart_noise event then Inr (PyBool True)
      else (case ignore (config self) of
              None \<Rightarrow> Inr (PyBool False)
            | Some ign \<Rightarrow>
                (case ignore_rule L ign event of
                   Inr (Some v) \<Rightarrow> Inr v
                 | Inr None \<Rightarrow> Inr (PyBool False)
                 | Inl ex \<Rightarrow> Inr (PyBool False))))"
  by (simp add: should_ignore_event_def within_grace_period_def restart_noise_def
        MINIMUM_LAUNCH_SECONDS_BEFORE_ALERTING_ABOUT_BEING_OFFLINE_def
        EventService_name_HARVESTER)

lemma ignore_rule_flat:
  assumes "ign ''compound'' = None"
  shows "ignore_rule L ign event =
     (if flat_match L ign event then Inr (Some (PyBool True))
      else (case ign ''message'' of
              None \<Rightarrow> Inr None
            | Some pat \<Rightarrow>
                (case re_search L pat (message event) of
                   Inl ex \<Rightarrow> Inl ex
                 | Inr b \<Rightarrow> Inr None)))"
  using assms unfolding ignore_rule_def flat_match_def
  by (cases "ign ''type''"; cases "ign ''priority''"; cases "ign ''service''";
      cases "ign ''message''")
     (auto split: sum.splits bool.splits)

lemma allow_rule_flat:
  assumes "alw ''compound'' = None"
  shows "allow_rule L alw event =
     (if flat_match L alw event then Inr (Some (PyBool True))
      else (case alw ''message'' of
              None \<Rightarrow> Inr None
            | Some pat \<Rightarrow>
                (case re_search L pat (message event) of
                   Inl ex \<Rightarrow> Inl ex
                 | Inr b \<Rightarrow> Inr None)))"
  using assms unfolding allow_rule_def flat_match_def
  by (cases "alw ''type''"; cases "alw ''priority''"; cases "alw ''service''";
      cases "alw ''message''")
     (auto split: sum.splits bool.splits)

lemma ignore_rule_match:
  "flat_match L ign event \<Longrightarrow> ignore_rule L ign event = Inr (Some (PyBool True))"
  unfolding ignore_rule_def flat_match_def
  by (cases "ign ''type''"; cases "ign ''priority''"; cases "ign ''service''";
      cases "ign ''message''")
     (auto split: sum.splits bool.splits)

lemma allow_rule_match:
  "flat_match L alw event \<Longrightarrow> allow_rule L alw event = Inr (Some (PyBool True))"
  unfolding allow_rule_def flat_match_def
  by (cases "alw ''type''"; cases "alw ''priority''"; cases "alw ''service''";
      cases "alw ''message''")
     (auto split: sum.splits bool.splits)

subsection \<open>Filter precedence, rule matching, faults and the grace period\<close>

text \<open>
  C1. Ignore takes precedence over allow. For a Notifier whose configuration holds the
  ignore rule \<^verbatim>\<open>{type: "KEEPALIVE"}\<close> and the allow rule \<^verbatim>\<open>{service: "WALLET"}\<close>, and an
  event of type KEEPALIVE and service WALLET (any priority, message, clock and library),
  \<^verbatim>\<open>should_ignore_event\<close> returns True and \<^verbatim>\<open>should_allow_event\<close> returns True, and the
  filtering policy does not deliver the event.
\<close>

theorem ignore_wins_over_allow:
  "should_ignore_event L
      (self\<lparr>config := (config self)\<lparr>ignore := Some [''type'' \<mapsto> ''KEEPALIVE''],
                                    allow := Some [''service'' \<mapsto> ''WALLET'']\<rparr>\<rparr>)
      now (event\<lparr>type := KEEPALIVE, service := WALLET\<rparr>) = Inr (PyBool True)
   \<and> should_allow_event L
      (self\<lparr>config := (config self)\<lparr>ignore := Some [''type'' \<mapsto> ''KEEPALIVE''],
                                    allow := Some [''service'' \<mapsto> ''WALLET'']\<rparr>\<rparr>)
      (event\<lparr>type := KEEPALIVE, service := WALLET\<rparr>) = Inr (PyBool True)
   \<and> \<not> delivered L
      (self\<lparr>config := (config self)\<lparr>ignore := Some [''type'' \<mapsto> ''KEEPALIVE''],
                                    allow := Some [''service'' \<mapsto> ''WALLET'']\<rparr>\<rparr>)
      now (event\<lparr>type := KEEPALIVE, service := WALLET\<rparr>)"
  by (simp add: should_ignore_event_cases should_allow_event_def delivered_def
        ignore_rule_def allow_rule_def)

text \<open>
  C2, as amended. Flat rule fields are matched exactly. For every event and every
  ignore (resp. allow) rule without a \<^verbatim>\<open>compound\<close> entry, \<^verbatim>\<open>should_ignore_event\<close> (resp.
  \<^verbatim>\<open>should_allow_event\<close>) returns True exactly when the grace-period rule applies (ignore
  only) or the rule's \<^verbatim>\<open>type\<close>, \<^verbatim>\<open>priority\<close> or \<^verbatim>\<open>service\<close> value equals, character for
  character, the (upper-case) name of the event's enum member, or the rule's \<^verbatim>\<open>message\<close>
  is found in the event's message by the case-insensitive multi-line search. With a
  \<^verbatim>\<open>compound\<close> entry present, such a match still makes the result True.
\<close>

theorem flat_rule_exact_match:
  "(ignore (config self) = Some ign \<and> ign ''compound'' = None \<longrightarrow>
      should_ignore_event L self now event =
        Inr (PyBool ((within_grace_period self now \<and> restart_noise event)
                     \<or> flat_match L ign event)))
   \<and> (allow (config self) = Some alw \<and> alw ''compound'' = None \<longrightarrow>
      should_allow_event L self event = Inr (PyBool (flat_match L alw event)))
   \<and> (ignore (config self) = Some ign \<and> flat_match L ign event \<longrightarrow>
      should_ignore_event L self now event = Inr (PyBool True))
   \<and> (allow (config self) = Some alw \<and> flat_match L alw event \<longrightarrow>
      should_allow_event L self event = Inr (PyBool True))"
proof (intro conjI impI)
  assume a: "ignore (config self) = Some ign \<and> ign ''compound'' = None"
  then show "should_ignore_event L self now event =
        Inr (PyBool ((within_grace_period self now \<and> restart_noise event)
                     \<or> flat_match L ign event))"
    by (simp add: should_ignore_event_cases ignore_rule_flat
          split: option.splits sum.splits)
next
  assume a: "allow (config self) = Some alw \<and> alw ''compound'' = None"
  then show "should_allow_event L self event = Inr (PyBool (flat_match L alw event))"
    by (simp add: should_allow_event_def allow_rule_flat
          split: option.splits sum.splits)
next
  assume "ignore (config self) = Some ign \<and> flat_match L ign event"
  then show "should_ignore_event L self now event = Inr (PyBool True)"
    by (simp add: should_ignore_event_cases ignore_rule_match)
next
  assume "allow (config self) = Some alw \<and> flat_match L alw event"
  then show "should_allow_event L self event = Inr (PyBool True)"
    by (simp add: should_allow_event_def allow_rule_match)
qed

theorem flat_rule_exact_match_witness:
  "should_ignore_event raising_Lib
      \<lparr>program_launch_time = 0, title_prefix = ''Chia'',
       config = rules_Config (Some [''type'' \<mapsto> ''KEEPALIVE'']) (Some [''service'' \<mapsto> ''wallet'']),
       conn_timeout_seconds = 10, notification_types = [USER],
       notification_services = [HARVESTER, FARMER, FULL_NODE]\<rparr>
      5000
      \<lparr>type = KEEPALIVE, priority = NORMAL, service = WALLET, message = ''Found 1 proof''\<rparr>
     = Inr (PyBool True)
   \<and> should_allow_event raising_Lib
      \<lparr>program_launch_time = 0, title_prefix = ''Chia'',
       config = rules_Config (Some [''type'' \<mapsto> ''KEEPALIVE'']) (Some [''service'' \<mapsto> ''wallet'']),
       conn_timeout_seconds = 10, notification_types = [USER],
       notification_services = [HARVESTER, FARMER, FULL_NODE]\<rparr>
      \<lparr>type = KEEPALIVE, priority = NORMAL, service = WALLET, message = ''Found 1 proof''\<rparr>
     = Inr (PyBool False)"
  using flat_rule_exact_match [of
      "\<lparr>program_launch_time = 0, title_prefix = ''Chia'',
       config = rules_Config (Some [''type'' \<mapsto> ''KEEPALIVE'']) (Some [''service'' \<mapsto> ''wallet'']),
       conn_timeout_seconds = 10, notification_types = [USER],
       notification_services = [HARVESTER, FARMER, FULL_NODE]\<rparr>"
      "[''type'' \<mapsto> ''KEEPALIVE'']" raising_Lib 5000
      "\<lparr>type = KEEPALIVE, priority = NORMAL, service = WALLET, message = ''Found 1 proof''\<rparr>"
      "[''service'' \<mapsto> ''wallet'']"]
  by (simp add: rules_Config_def flat_match_def)

text \<open>
  The claim as stated fails: the ignore rule \<^verbatim>\<open>{type: "keepalive"}\<close> matches an event of
  type KEEPALIVE under a case-insensitive comparison, but \<^verbatim>\<open>should_ignore_event\<close> returns
  False for it (past the grace period), and so does \<^verbatim>\<open>should_allow_event\<close> for the same
  rule as an allow rule.
\<close>

theorem flat_rule_case_insensitive_counterexample:
  "flat_match_case_insensitive raising_Lib [''type'' \<mapsto> ''keepalive'']
      \<lparr>type = KEEPALIVE, priority = NORMAL, service = FARMER, message = ''Found 1 proof''\<rparr>
   \<and> should_ignore_event raising_Lib
      \<lparr>program_launch_time = 0, title_prefix = ''Chia'',
       config = rules_Config (Some [''type'' \<mapsto> ''keepalive'']) None,
       conn_timeout_seconds = 10, notification_types = [USER],
       notification_services = [HARVESTER, FARMER, FULL_NODE]\<rparr>
      5000
      \<lparr>type = KEEPALIVE, priority = NORMAL, service = FARMER, message = ''Found 1 proof''\<rparr>
     = Inr (PyBool False)
   \<and> should_allow_event raising_Lib
      \<lparr>program_launch_time = 0, title_prefix = ''Chia'',
       config = rules_Config None (Some [''type'' \<mapsto> ''keepalive'']),
       conn_timeout_seconds = 10, notification_types = [USER],
       notification_services = [HARVESTER, FARMER, FULL_NODE]\<rparr>
      \<lparr>type = KEEPALIVE, priority = NORMAL, service = FARMER, message = ''Found 1 proof''\<rparr>
     = Inr (PyBool False)"
  by (simp add: flat_match_case_insensitive_def upper_def upper_char_def
        should_ignore_event_cases should_allow_event_def ignore_rule_def allow_rule_def
        rules_Config_def within_grace_period_def)

text \<open>
  C3. Rule-evaluation faults. When the evaluation of the configured ignore rule raises
  (it is evaluated when the grace-period rule has not already returned True),
  \<^verbatim>\<open>should_ignore_event\<close> returns False; when the evaluation of the configured allow rule
  raises, \<^verbatim>\<open>should_allow_event\<close> returns False. Neither function ever raises.
\<close>

theorem rule_fault_asymmetry:
  "(ignore (config self) = Some ign \<and> ignore_rule L ign event = Inl ex
      \<and> \<not> (within_grace_period self now \<and> restart_noise event) \<longrightarrow>
      should_ignore_event L self now event = Inr (PyBool False))
   \<and> (allow (config self) = Some alw \<and> allow_rule L alw event = Inl ex' \<longrightarrow>
      should_allow_event L self event = Inr (PyBool False))
   \<and> (\<exists>v. should_ignore_event L self now event = Inr v)
   \<and> (\<exists>v. should_allow_event L self event = Inr v)"
proof (intro conjI impI)
  assume "ignore (config self) = Some ign \<and> ignore_rule L ign event = Inl ex
      \<and> \<not> (within_grace_period self now \<and> restart_noise event)"
  then show "should_ignore_event L self now event = Inr (PyBool False)"
    by (simp add: should_ignore_event_cases)
next
  assume "allow (config self) = Some alw \<and> allow_rule L alw event = Inl ex'"
  then show "should_allow_event L self event = Inr (PyBool False)"
    by (simp add: should_allow_event_def)
next
  show "\<exists>v. should_ignore_event L self now event = Inr v"
    by (simp add: should_ignore_event_cases split: option.splits sum.splits)
next
  show "\<exists>v. should_allow_event L self event = Inr v"
    by (simp add: should_allow_event_def split: option.splits sum.splits)
qed

theorem rule_fault_asymmetry_witness:
  "ignore_rule raising_Lib [''compound'' \<mapsto> ''{'']
      \<lparr>type = USER, priority = HIGH, service = FARMER, message = ''Lost sync''\<rparr>
     = Inl ValueError
   \<and> allow_rule raising_Lib [''message'' \<mapsto> ''(sync'']
      \<lparr>type = USER, priority = HIGH, service = FARMER, message = ''Lost sync''\<rparr>
     = Inl (OtherException ''re.error'')
   \<and> should_ignore_event raising_Lib
      \<lparr>program_launch_time = 0, title_prefix = ''Chia'',
       config = rules_Config (Some [''compound'' \<mapsto> ''{'']) (Some [''message'' \<mapsto> ''(sync'']),
       conn_timeout_seconds = 10, notification_types = [USER],
       notification_services = [HARVESTER, FARMER, FULL_NODE]\<rparr>
      60
      \<lparr>type = USER, priority = HIGH, service = FARMER, message = ''Lost sync''\<rparr>
     = Inr (PyBool False)
   \<and> should_allow_event raising_Lib
      \<lparr>program_launch_time = 0, title_prefix = ''Chia'',
       config = rules_Config (Some [''compound'' \<mapsto> ''{'']) (Some [''message'' \<mapsto> ''(sync'']),
       conn_timeout_seconds = 10, notification_types = [USER],
       notification_services = [HARVESTER, FARMER, FULL_NODE]\<rparr>
      \<lparr>type = USER, priority = HIGH, service = FARMER, message = ''Lost sync''\<rparr>
     = Inr (PyBool False)"
  using rule_fault_asymmetry [of
      "\<lparr>program_launch_time = 0, title_prefix = ''Chia'',
       config = rules_Config (Some [''compound'' \<mapsto> ''{'']) (Some [''message'' \<mapsto> ''(sync'']),
       conn_timeout_seconds = 10, notification_types = [USER],
       notification_services = [HARVESTER, FARMER, FULL_NODE]\<rparr>"
      "[''compound'' \<mapsto> ''{'']" raising_Lib
      "\<lparr>type = USER, priority = HIGH, service = FARMER, message = ''Lost sync''\<rparr>"
      ValueError 60 "[''message'' \<mapsto> ''(sync'']" "OtherException ''re.error''"]
  by (simp add: rules_Config_def ignore_rule_def allow_rule_def raising_Lib_def
        restart_noise_def startswith_def)

text \<open>
  C4, as amended. With no ignore rule configured, \<^verbatim>\<open>should_ignore_event\<close> returns True
  exactly when the clock is at most 1800 seconds past the launch time and either the
  event's service is HARVESTER and its message starts with "Your harvester appears to
  be offline!", or its message starts with "Experiencing networking issues?" or with
  "Cha-ching!" (for any service). In particular, for a HARVESTER event with the message
  "Your harvester appears to be offline!" the result is True 100 seconds after the
  launch and False 1900 seconds after it.
\<close>

theorem no_ignore_spec_grace_rule:
  "(ignore (config self) = None \<longrightarrow>
      should_ignore_event L self now event =
        Inr (PyBool (now \<le> program_launch_time self + 1800
                     \<and> ((service event = HARVESTER
                           \<and> startswith (message event) ''Your harvester appears to be offline!'')
                          \<or> startswith (message event) ''Experiencing networking issues?''
                          \<or> startswith (message event) ''Cha-ching!''))))
   \<and> (ignore (config self) = None \<and> service event = HARVESTER
        \<and> message event = ''Your harvester appears to be offline!'' \<longrightarrow>
      should_ignore_event L self (program_launch_time self + 100) event = Inr (PyBool True)
      \<and> should_ignore_event L self (program_launch_time self + 1900) event = Inr (PyBool False))"
proof (intro conjI impI)
  assume "ignore (config self) = None"
  then show "should_ignore_event L self now event =
        Inr (PyBool (now \<le> program_launch_time self + 1800
                     \<and> ((service event = HARVESTER
                           \<and> startswith (message event) ''Your harvester appears to be offline!'')
                          \<or> startswith (message event) ''Experiencing networking issues?''
                          \<or> startswith (message event) ''Cha-ching!'')))"
    by (simp add: should_ignore_event_cases within_grace_period_def restart_noise_def)
next
  assume a: "ignore (config self) = None \<and> service event = HARVESTER
        \<and> message event = ''Your harvester appears to be offline!''"
  then show "should_ignore_event L self (program_launch_time self + 100) event = Inr (PyBool True)"
    by (simp add: should_ignore_event_cases within_grace_period_def restart_noise_def
          startswith_def)
  from a show "should_ignore_event L self (program_launch_time self + 1900) event = Inr (PyBool False)"
    by (simp add: should_ignore_event_cases within_grace_period_def)
qed

theorem no_ignore_spec_grace_rule_witness:
  "should_ignore_event raising_Lib
      \<lparr>program_launch_time = 1000, title_prefix = ''Chia'', config = rules_Config None None,
       conn_timeout_seconds = 10, notification_types = [USER],
       notification_services = [HARVESTER, FARMER, FULL_NODE]\<rparr>
      1100
      \<lparr>type = USER, priority = HIGH, service = HARVESTER,
       message = ''Your harvester appears to be offline!''\<rparr>
     = Inr (PyBool True)
   \<and> should_ignore_event raising_Lib
      \<lparr>program_launch_time = 1000, title_prefix = ''Chia'', config = rules_Config None None,
       conn_timeout_seconds = 10, notification_types = [USER],
       notification_services = [HARVESTER, FARMER, FULL_NODE]\<rparr>
      2900
      \<lparr>type = USER, priority = HIGH, service = HARVESTER,
       message = ''Your harvester appears to be offline!''\<rparr>
     = Inr (PyBool False)"
  using no_ignore_spec_grace_rule [of
      "\<lparr>program_launch_time = 1000, title_prefix = ''Chia'', config = rules_Config None None,
       conn_timeout_seconds = 10, notification_types = [USER],
       notification_services = [HARVESTER, FARMER, FULL_NODE]\<rparr>"
      raising_Lib 1100
      "\<lparr>type = USER, priority = HIGH, service = HARVESTER,
       message = ''Your harvester appears to be offline!''\<rparr>"]
  by (simp add: rules_Config_def startswith_def)

text \<open>
  The claim as stated fails: a WALLET event whose message starts with "Cha-ching!" is
  not a restart alert for the HARVESTER service, yet 100 seconds after the launch
  \<^verbatim>\<open>should_ignore_event\<close> returns True for it.
\<close>

theorem grace_rule_service_counterexample:
  "\<not> restart_noise_as_specified
      \<lparr>type = USER, priority = LOW, service = WALLET,
       message = ''Cha-ching! Just received 2 XCH''\<rparr>
   \<and> should_ignore_event raising_Lib
      \<lparr>program_launch_time = 1000, title_prefix = ''Chia'', config = rules_Config None None,
       conn_timeout_seconds = 10, notification_types = [USER],
       notification_services = [HARVESTER, FARMER, FULL_NODE]\<rparr>
      1100
      \<lparr>type = USER, priority = LOW, service = WALLET,
       message = ''Cha-ching! Just received 2 XCH''\<rparr>
     = Inr (PyBool True)"
  by (simp add: restart_noise_as_specified_def should_ignore_event_cases
        within_grace_period_def restart_noise_def startswith_def)

subsection \<open>Subscriptions\<close>

text \<open>
  C10. Baseline subscription invariant: for every configuration, a constructed Notifier
  subscribes to the type USER and to the services HARVESTER, FARMER and FULL_NODE; the
  four feature flags add DAILY_STATS and DAILY, WALLET, PLOTDECREASE and PLOTINCREASE
  respectively, and nothing removes a baseline member: the two lists are the baseline
  followed by the members the flags add, in the order of the flags.
\<close>

theorem Notifier_init_subscriptions:
  "USER \<in> set (notification_types (Notifier_init now title cfg))
   \<and> HARVESTER \<in> set (notification_services (Notifier_init now title cfg))
   \<and> FARMER \<in> set (notification_services (Notifier_init now title cfg))
   \<and> FULL_NODE \<in> set (notification_services (Notifier_init now title cfg))
   \<and> notification_types (Notifier_init now title cfg) =
       [USER]
       @ (if get_or (daily_stats cfg) False then [DAILY_STATS] else [])
       @ (if get_or (decreasing_plot_events cfg) False then [PLOTDECREASE] else [])
       @ (if get_or (increasing_plot_events cfg) False then [PLOTINCREASE] else [])
   \<and> notification_services (Notifier_init now title cfg) =
       [HARVESTER, FARMER, FULL_NODE]
       @ (if get_or (daily_stats cfg) False then [DAILY] else [])
       @ (if get_or (wallet_events cfg) False then [WALLET] else [])"
  by (simp add: Notifier_init_def Let_def)


section \<open>Properties of the ingestion endpoint\<close>

text \<open>
  The guards of \<^verbatim>\<open>do_POST\<close>: a content type other than \<^verbatim>\<open>application/json\<close> and a body
  without the key \<^verbatim>\<open>type\<close> are answered with status 400; an exception of \<^verbatim>\<open>json.loads\<close>
  is not caught.
\<close>

lemma do_POST_wrong_content_type:
  "headers self ''content-type'' = Some line \<Longrightarrow> parse_header line \<noteq> ''application/json''
     \<Longrightarrow> do_POST parse_header loads self = Inr bad_request"
  by (simp add: do_POST_def bind_exn_def)

lemma do_POST_missing_type:
  assumes "headers self ''content-type'' = Some line"
    and "parse_header line = ''application/json''"
    and "headers self ''content-length'' = Some n" and "py_int n = Inr len"
    and "loads (rfile_read (rfile self) len) = Inr (PyDict kvs)"
    and "map_of kvs ''type'' = None"
  shows "do_POST parse_header loads self = Inr bad_request"
  using assms by (simp add: do_POST_def bind_exn_def)

lemma do_POST_unparsable_body:
  assumes "headers self ''content-type'' = Some line"
    and "parse_header line = ''application/json''"
    and "headers self ''content-length'' = Some n" and "py_int n = Inr len"
    and "loads (rfile_read (rfile self) len) = Inl ex"
  shows "do_POST parse_header loads self = Inl ex"
  using assms by (simp add: do_POST_def bind_exn_def)

lemma do_POST_returns:
  assumes "do_POST parse_header loads self = Inr h"
  shows "h = bad_request
         \<or> (\<exists>ev. h = \<lparr>status = 200,
                       sent_headers = [(''Content-type'', ''application/json'')],
                       wfile = ''Event received and notifications sent.'',
                       process_events_calls = [[ev]]\<rparr>)"
  using assms unfolding do_POST_def bind_exn_def
  by (auto split: sum.splits if_splits option.splits)

text \<open>
  C8. Successful ingestion. A POST with \<^verbatim>\<open>Content-Type: application/json\<close> whose body is
  \<^verbatim>\<open>{"type":"user","priority":"high","service":"farmer","message":"hello"}\<close> (70 bytes, and
  \<^verbatim>\<open>Content-Length: 70\<close>) is answered with status 200 and the confirmation text, and
  \<^verbatim>\<open>process_events\<close> is called once, with the one event of type USER, priority HIGH,
  service FARMER and message "hello". In general, every POST answered with status 200
  has made exactly one call of \<^verbatim>\<open>process_events\<close>, with exactly one event.
\<close>

theorem successful_ingestion:
  "(parse_header ''application/json'' = ''application/json''
      \<and> loads example_body =
          Inr (PyDict [(''type'', PyStr ''user''), (''priority'', PyStr ''high''),
                       (''service'', PyStr ''farmer''), (''message'', PyStr ''hello'')]) \<longrightarrow>
    do_POST parse_header loads
      \<lparr>headers = [''content-type'' \<mapsto> ''application/json'', ''content-length'' \<mapsto> ''70''],
       rfile = example_body\<rparr>
    = Inr \<lparr>status = 200,
           sent_headers = [(''Content-type'', ''application/json'')],
           wfile = ''Event received and notifications sent.'',
           process_events_calls =
             [[\<lparr>type = USER, priority = HIGH, service = FARMER,
                message = PyStr ''hello''\<rparr>]]\<rparr>)
   \<and> (do_POST parse_header loads self = Inr h \<and> status h = 200 \<longrightarrow>
        (\<exists>ev. process_events_calls h = [[ev]]))"
proof (intro conjI impI)
  assume a: "parse_header ''application/json'' = ''application/json''
      \<and> loads example_body =
          Inr (PyDict [(''type'', PyStr ''user''), (''priority'', PyStr ''high''),
                       (''service'', PyStr ''farmer''), (''message'', PyStr ''hello'')])"
  have len: "rfile_read example_body 70 = example_body"
    by (simp add: rfile_read_def example_body_def)
  have n: "py_int ''70'' = Inr 70"
    by (simp add: py_int_def skip_int_space_def is_int_space_def int_max_str_digits_def
          startswith_def is_digit_def digit_value_def)
  have t: "EventType_getitem (upper ''user'') = Inr USER"
    by (simp add: EventType_getitem_def upper_def upper_char_def)
  have p: "EventPriority_getitem (upper ''high'') = Inr HIGH"
    by (simp add: EventPriority_getitem_def upper_def upper_char_def)
  have s: "EventService_getitem (upper ''farmer'') = Inr FARMER"
    by (simp add: EventService_getitem_def upper_def upper_char_def)
  from a show "do_POST parse_header loads
      \<lparr>headers = [''content-type'' \<mapsto> ''application/json'', ''content-length'' \<mapsto> ''70''],
       rfile = example_body\<rparr>
    = Inr \<lparr>status = 200,
           sent_headers = [(''Content-type'', ''application/json'')],
           wfile = ''Event received and notifications sent.'',
           process_events_calls =
             [[\<lparr>type = USER, priority = HIGH, service = FARMER,
                message = PyStr ''hello''\<rparr>]]\<rparr>"
    by (simp add: do_POST_def bind_exn_def len n t p s)
next
  assume "do_POST parse_header loads self = Inr h \<and> status h = 200"
  then show "\<exists>ev. process_events_calls h = [[ev]]"
    using do_POST_returns [of parse_header loads self h]
    by (auto simp: bad_request_def)
qed

theorem successful_ingestion_witness:
  "do_POST (\<lambda>line. line) example_loads
      \<lparr>headers = [''content-type'' \<mapsto> ''application/json'', ''content-length'' \<mapsto> ''70''],
       rfile = example_body\<rparr>
    = Inr \<lparr>status = 200,
           sent_headers = [(''Content-type'', ''application/json'')],
           wfile = ''Event received and notifications sent.'',
           process_events_calls =
             [[\<lparr>type = USER, priority = HIGH, service = FARMER,
                message = PyStr ''hello''\<rparr>]]\<rparr>
   \<and> (\<exists>ev. process_events_calls
          \<lparr>status = 200,
           sent_headers = [(''Content-type'', ''application/json'')],
           wfile = ''Event received and notifications sent.'',
           process_events_calls =
             [[\<lparr>type = USER, priority = HIGH, service = FARMER,
                message = PyStr ''hello''\<rparr>]]\<rparr> = [[ev]])"
  using successful_ingestion [of "\<lambda>line. line" example_loads
      "\<lparr>headers = [''content-type'' \<mapsto> ''application/json'', ''content-length'' \<mapsto> ''70''],
       rfile = example_body\<rparr>"
      "\<lparr>status = 200,
           sent_headers = [(''Content-type'', ''application/json'')],
           wfile = ''Event received and notifications sent.'',
           process_events_calls =
             [[\<lparr>type = USER, priority = HIGH, service = FARMER,
                message = PyStr ''hello''\<rparr>]]\<rparr>"]
  by (simp add: example_loads_def)

text \<open>
  C5 does not hold of the code. A POST whose body is
  \<^verbatim>\<open>{"type":"bogus","priority":"high","service":"farmer","message":"hello"}\<close> is not
  answered with status 400: the lookup \<^verbatim>\<open>EventType['BOGUS']\<close> raises \<^verbatim>\<open>KeyError\<close>, which leaves
  \<^verbatim>\<open>do_POST\<close> before any response is sent.
\<close>

theorem invalid_enum_value_raises:
  "do_POST (\<lambda>line. line) bogus_loads
      \<lparr>headers = [''content-type'' \<mapsto> ''application/json'', ''content-length'' \<mapsto> ''71''],
       rfile = bogus_body\<rparr>
    = Inl (KeyError ''BOGUS'')"
  by (simp add: do_POST_def bind_exn_def bogus_loads_def rfile_read_def bogus_body_def
        py_int_def skip_int_space_def is_int_space_def int_max_str_digits_def
        startswith_def is_digit_def digit_value_def
        EventType_getitem_def upper_def upper_char_def)


section \<open>Properties of the log handler\<close>

lemma check_loop_eq:
  "check_loop msg j cs (events, trace) =
     (map (advance msg) cs,
      events @ concat (map (emit_now msg) cs),
      trace @ map (\<lambda>k. Call_check k msg) [j..<j + length cs])"
proof (induction cs arbitrary: j events trace)
  case Nil
  show ?case by simp
next
  case (Cons c cs)
  obtain check st where c: "c = (check, st)" by (cases c)
  obtain event st' where r: "check st msg = (event, st')" by (cases "check st msg")
  have up: "[j..<j + length (c # cs)] = j # [Suc j..<Suc j + length cs]"
    using upt_conv_Cons [of j "j + length (c # cs)"] by simp
  show ?case
    unfolding up
    by (cases event) (simp_all add: c r Cons.IH advance_def emit_now_def)
qed

lemma fst_advance: "fst (advance msg c) = fst c"
  by (simp add: advance_def)

lemma state_after_Cons:
  "state_after c (msg # msgs) = state_after (advance msg c) msgs"
  by (simp add: state_after_def advance_def)

lemma emitted_0: "emitted c (msg # msgs) 0 = emit_now msg c"
  by (simp add: emitted_def emit_now_def state_after_def)

lemma emitted_Suc: "emitted c (msg # msgs) (Suc i) = emitted (advance msg c) msgs i"
  by (simp add: emitted_def state_after_Cons fst_advance)

lemma events_in_order_Cons:
  "events_in_order cs (msg # msgs) =
     concat (map (emit_now msg) cs) @ events_in_order (map (advance msg) cs) msgs"
proof -
  have "[0..<length (msg # msgs)] = 0 # map Suc [0..<length msgs]"
    using upt_conv_Cons [of 0 "length (msg # msgs)"] by (simp add: map_Suc_upt)
  then show ?thesis
    by (simp add: events_in_order_def emitted_0 emitted_Suc comp_def)
qed

lemma message_loop_eq:
  "message_loop msgs cs (events, trace) =
     (map (\<lambda>c. (fst c, state_after c msgs)) cs,
      events @ events_in_order cs msgs,
      trace @ checks_in_order (length cs) msgs)"
proof (induction msgs arbitrary: cs events trace)
  case Nil
  show ?case
    by (simp add: state_after_def events_in_order_def checks_in_order_def)
next
  case (Cons msg msgs)
  show ?case
    by (simp add: check_loop_eq Cons.IH events_in_order_Cons state_after_Cons
          checks_in_order_def advance_def comp_def)
qed

text \<open>
  C9. Fan-out of \<^verbatim>\<open>handle\<close>. The handler calls the parser once, on the log text, before
  anything else; when a stats manager is supplied it is handed all parsed records next,
  whatever the checkers do; then every registered checker is run on every parsed record,
  record by record and, for one record, in the order of registration. The returned
  events are all the events the checkers emit, ordered by record first and by checker
  second, and each checker is left in the state its own checks on the records produce.
\<close>

theorem handle_fan_out:
  "returned (handle partial_parse consume checkers logs stats) = events_in_order checkers (partial_parse logs)
   \<and> calls (handle partial_parse consume checkers logs stats) =
       [Call_parse logs]
       @ (case stats of None \<Rightarrow> [] | Some st \<Rightarrow> [Call_consume_partial_messages (partial_parse logs)])
       @ checks_in_order (length checkers) (partial_parse logs)
   \<and> stats_manager (handle partial_parse consume checkers logs stats) =
       (case stats of None \<Rightarrow> None | Some st \<Rightarrow> Some (consume st (partial_parse logs)))
   \<and> cond_checkers (handle partial_parse consume checkers logs stats) =
       map (\<lambda>c. (fst c, state_after c (partial_parse logs))) checkers"
  by (cases stats) (simp_all add: handle_def message_loop_eq Let_def)

text \<open>
  The fan-out on two records and two checkers, the second of which keeps a count and
  emits from its second record on.
\<close>

theorem handle_fan_out_example:
  "returned (handle (\<lambda>logs. [10, 20 :: nat]) (\<lambda>st msgs. st @ msgs)
       [((\<lambda>st msg. (Some (msg + 1), st)), 0 :: nat),
        ((\<lambda>st msg. (if st = 0 then None else Some (msg + st), Suc st)), 0)]
       ''two partials'' (Some []))
     = [11, 21, 21]
   \<and> calls (handle (\<lambda>logs. [10, 20 :: nat]) (\<lambda>st msgs. st @ msgs)
       [((\<lambda>st msg. (Some (msg + 1), st)), 0 :: nat),
        ((\<lambda>st msg. (if st = 0 then None else Some (msg + st), Suc st)), 0)]
       ''two partials'' (Some []))
     = [Call_parse ''two partials'', Call_consume_partial_messages [10, 20],
        Call_check 0 10, Call_check 1 10, Call_check 0 20, Call_check 1 20]
   \<and> stats_manager (handle (\<lambda>logs. [10, 20 :: nat]) (\<lambda>st msgs. st @ msgs)
       [((\<lambda>st msg. (Some (msg + 1), st)), 0 :: nat),
        ((\<lambda>st msg. (if st = 0 then None else Some (msg + st), Suc st)), 0)]
       ''two partials'' (Some []))
     = Some [10, 20]"
  using handle_fan_out [of "\<lambda>logs. [10, 20 :: nat]" "\<lambda>st msgs. st @ msgs"
       "[((\<lambda>st msg. (Some (msg + 1), st)), 0 :: nat),
        ((\<lambda>st msg. (if st = 0 then None else Some (msg + st), Suc st)), 0)]"
       "''two partials''" "Some []"]
  by (simp add: events_in_order_def emitted_def state_after_def checks_in_order_def
        eval_nat_numeral)


section \<open>Properties of the wallet parser\<close>

subsection \<open>The loop, the matcher and the conversion of the amount\<close>

lemma scale_eq_multiplier:
  "(if p = ''chives'' then x * 10000
    else if p = ''cryptodoge'' then x * 1000000
    else if p = ''shibgreen'' \<or> p = ''littlelambocoin'' then x * 1000000000
    else if p = ''stai'' then x * 1000
    else x) = x * multiplier p"
  by (simp add: multiplier_def)

lemma parse_loop_eq:
  "parse_loop dp p ms acc =
     (case sequence_exn (map (convert_match dp p) ms) of
        Inl ex \<Rightarrow> Inl ex
      | Inr xs \<Rightarrow> Inr (acc @ xs))"
proof (induction ms arbitrary: acc)
  case Nil
  show ?case by simp
next
  case (Cons m ms)
  show ?case
  proof (cases "py_int (snd m)")
    case (Inl ex)
    then show ?thesis by (simp add: convert_match_def bind_exn_def)
  next
    case (Inr x)
    note x = this
    show ?thesis
    proof (cases "dp (fst m)")
      case (Inl ex)
      with x show ?thesis by (simp add: convert_match_def bind_exn_def)
    next
      case (Inr ts)
      with x show ?thesis
        by (simp add: convert_match_def bind_exn_def Cons.IH scale_eq_multiplier
              split: sum.splits)
    qed
  qed
qed

lemma sequence_exn_all2:
  "sequence_exn rs = Inr vs \<Longrightarrow> list_all2 (\<lambda>r v. r = Inr v) rs vs"
proof (induction rs arbitrary: vs)
  case Nil
  then show ?case by simp
next
  case (Cons r rs)
  then show ?case by (cases r) (auto split: sum.splits)
qed

lemma sequence_exn_ok:
  "list_all (\<lambda>r. \<exists>v. r = Inr v) rs \<Longrightarrow> \<exists>vs. sequence_exn rs = Inr vs \<and> length vs = length rs"
  by (induction rs) auto

lemma star_result:
  "star p s k = Some x \<Longrightarrow> \<exists>n\<le>length s. list_all p (take n s) \<and> k (drop n s) = Some x"
proof (induction s)
  case Nil
  then show ?case by simp
next
  case (Cons c s)
  show ?case
  proof (cases "p c \<and> star p s k \<noteq> None")
    case True
    with Cons.prems have "star p s k = Some x" by auto
    from Cons.IH [OF this] obtain n where
      n: "n \<le> length s" "list_all p (take n s)" "k (drop n s) = Some x" by blast
    with True show ?thesis by (intro exI [of _ "Suc n"]) simp
  next
    case False
    with Cons.prems have "k (c # s) = Some x" by (auto split: if_splits)
    then show ?thesis by (intro exI [of _ 0]) simp
  qed
qed

lemma match_here_result:
  "match_here r s g k = Some x \<Longrightarrow> \<exists>t g'. k t g' = Some x"
proof (induction r arbitrary: s g k)
  case (Lit l)
  then have "k (drop (length l) s) g = Some x" by (simp split: if_splits)
  then show ?case by blast
next
  case AnyChar
  then obtain c t where "s = c # t" "k t g = Some x"
    by (cases s) (simp_all split: if_splits)
  then show ?case by blast
next
  case (Star_set cs)
  then have "star (\<lambda>c. c \<in> set cs) s (\<lambda>t. k t g) = Some x" by simp
  from star_result [OF this] show ?case by blast
next
  case Star_any
  then have "star (\<lambda>c. c \<noteq> CHR 0x0A) s (\<lambda>t. k t g) = Some x" by simp
  from star_result [OF this] show ?case by blast
next
  case Star_space
  then have "star is_space s (\<lambda>t. k t g) = Some x" by simp
  from star_result [OF this] show ?case by blast
next
  case (Alt a b)
  show ?case
  proof (cases "match_here a s g k")
    case None
    with Alt.prems have "match_here b s g k = Some x" by simp
    from Alt.IH(2) [OF this] show ?thesis .
  next
    case (Some y)
    with Alt.prems have "match_here a s g k = Some x" by simp
    from Alt.IH(1) [OF this] show ?thesis .
  qed
next
  case (Opt a)
  show ?case
  proof (cases "match_here a s g k")
    case None
    with Opt.prems have "k s g = Some x" by simp
    then show ?thesis by blast
  next
    case (Some y)
    with Opt.prems have "match_here a s g k = Some x" by simp
    from Opt.IH [OF this] show ?thesis .
  qed
next
  case (Seq a b)
  from Seq.prems have "match_here a s g (\<lambda>t g'. match_here b t g' k) = Some x" by simp
  from Seq.IH(1) [OF this] obtain t g' where "match_here b t g' k = Some x" by blast
  from Seq.IH(2) [OF this] show ?case .
next
  case (Group1 a)
  from Group1.prems
  have "match_here a s g (\<lambda>t g'. k t (take (length s - length t) s, snd g')) = Some x"
    by simp
  from Group1.IH [OF this] show ?case by blast
next
  case (Group2 a)
  from Group2.prems
  have "match_here a s g (\<lambda>t g'. k t (fst g', take (length s - length t) s)) = Some x"
    by simp
  from Group2.IH [OF this] show ?case by blast
qed

lemma group2_digits:
  assumes "match_here (Group2 (Star_set ''0123456789'')) s g k = Some x"
  shows "\<exists>t g'. k t g' = Some x \<and> list_all is_digit (snd g')"
proof -
  from assms have
    "star (\<lambda>c. c \<in> set ''0123456789'') s (\<lambda>t. k t (fst g, take (length s - length t) s)) = Some x"
    by simp
  from star_result [OF this] obtain n where
    n: "n \<le> length s" "list_all (\<lambda>c. c \<in> set ''0123456789'') (take n s)"
       "k (drop n s) (fst g, take (length s - length (drop n s)) s) = Some x" by blast
  from n(1) have "length s - length (drop n s) = n" by simp
  moreover have "is_digit = (\<lambda>c. c \<in> set ''0123456789'')"
    by (intro ext) (simp only: is_digit_def)
  ultimately have "k (drop n s) (fst g, take n s) = Some x"
    "list_all is_digit (snd (fst g, take n s))"
    using n(2,3) by simp_all
  then show ?thesis by blast
qed

lemma seq_digits:
  assumes "match_here (Seq a b) s g k = Some x"
    and "\<And>s g. match_here b s g k = Some x \<Longrightarrow> \<exists>t g'. k t g' = Some x \<and> list_all is_digit (snd g')"
  shows "\<exists>t g'. k t g' = Some x \<and> list_all is_digit (snd g')"
proof -
  from assms(1) have "match_here a s g (\<lambda>t g'. match_here b t g' k) = Some x" by simp
  from match_here_result [OF this] obtain t g' where "match_here b t g' k = Some x" by blast
  from assms(2) [OF this] show ?thesis .
qed

lemma wallet_pattern_digits:
  "match_here (wallet_pattern p) s g k = Some x
     \<Longrightarrow> \<exists>t g'. k t g' = Some x \<and> list_all is_digit (snd g')"
  unfolding wallet_pattern_def Seqs.simps
  apply (erule seq_digits)+
  apply (erule group2_digits)
  done

lemma findall_wallet_pattern_digits:
  "list_all (\<lambda>m. list_all is_digit (snd m)) (findall (wallet_pattern p) s)"
proof (induction "wallet_pattern p" s rule: findall.induct)
  case (1 s)
  show ?case
    apply (subst findall.simps)
    using 1 wallet_pattern_digits [of p s "([], [])" "\<lambda>t g. Some (t, g)"]
    apply (auto split: option.splits list.splits)
    done
qed

lemma digit_not_space: "is_digit c \<Longrightarrow> \<not> is_int_space c"
  by (auto simp: is_digit_def is_int_space_def)

lemma digit_value_nonneg: "0 \<le> digit_value c"
  by (auto simp: digit_value_def split: option.splits if_splits)

lemma int_digits_all_digits:
  "list_all is_digit ds \<Longrightarrow> 0 \<le> acc \<Longrightarrow> \<exists>v. int_digits acc ds = Some v \<and> 0 \<le> v"
proof (induction acc ds rule: int_digits.induct)
  case (1 acc)
  then show ?case by simp
next
  case (2 acc c)
  then show ?case by (simp add: digit_value_nonneg)
next
  case (3 acc c d ds)
  from 3(3,4) have "is_digit c" "list_all is_digit (d # ds)" "0 \<le> 10 * acc + digit_value c"
    using digit_value_nonneg [of c] by simp_all
  with 3(1) show ?case by simp
qed

lemma skip_int_space_digits: "list_all is_digit s \<Longrightarrow> skip_int_space s = s"
proof (cases s rule: rev_cases)
  case Nil
  then show ?thesis by (simp add: skip_int_space_def)
next
  case (snoc ys y)
  assume d: "list_all is_digit s"
  with snoc have y: "\<not> is_int_space y" by (simp add: digit_not_space)
  have front: "dropWhile is_int_space s = s"
    using d by (cases s) (simp_all add: digit_not_space)
  show ?thesis
    by (simp add: skip_int_space_def front) (simp add: snoc y)
qed

lemma py_int_digits:
  assumes "list_all is_digit s" and "s \<noteq> []" and "length s \<le> int_max_str_digits"
  shows "\<exists>x. py_int s = Inr x \<and> 0 \<le> x"
proof -
  from assms obtain d ds where s: "s = d # ds" by (cases s) auto
  with assms(1) have d: "is_digit d" "list_all is_digit ds" by simp_all
  from d(1) have sign: "d \<noteq> CHR ''-''" "d \<noteq> CHR ''+''"
    by (auto simp: is_digit_def)
  from int_digits_all_digits [OF d(2) digit_value_nonneg [of d]]
  obtain v where v: "int_digits (digit_value d) ds = Some v" "0 \<le> v" by blast
  have "filter is_digit s = s"
    using assms(1) by (simp add: list_all_iff)
  with assms(3) have limit: "\<not> length (filter is_digit (d # ds)) > int_max_str_digits"
    by (simp add: s)
  show ?thesis
    using assms(1) d(1) sign v limit
    by (simp add: py_int_def skip_int_space_digits s startswith_def del: filter.simps)
qed

lemma py_int_empty: "py_int [] = Inl ValueError"
  by (simp add: py_int_def skip_int_space_def startswith_def)

lemma findall_coin_line:
  "findall (wallet_pattern ''chives'') coin_line = [(''2021-05-26T12:00:28.253'', ''5'')]"
  by (simp add: findall.simps wallet_pattern_def coin_line_def startswith_def is_space_def)

lemma findall_cut_line:
  "findall (wallet_pattern ''chia'') cut_line = [(''2021-05-26T12:00:28.253'', [])]"
  by (simp add: findall.simps wallet_pattern_def cut_line_def startswith_def is_space_def)

lemma findall_no_match:
  "findall (wallet_pattern ''chives'') ''farmer: INFO ok'' = []"
  by (simp add: findall.simps wallet_pattern_def startswith_def is_space_def)

lemma py_int_5: "py_int ''5'' = Inr 5"
  by (simp add: py_int_def skip_int_space_def is_int_space_def int_max_str_digits_def
        startswith_def is_digit_def digit_value_def)

subsection \<open>Scaling and totality\<close>

text \<open>
  C6. Coin-amount scaling. \<^verbatim>\<open>parse\<close> converts the matches of the pattern from left to
  right, each to a record whose amount is the base amount of the match (the integer its
  second group spells) times the multiplier of the configured prefix, and the first
  exception ends the call; so when \<^verbatim>\<open>parse\<close> returns, every record carries the scaled
  amount of its match. The multiplier is 10000 for "chives", 1000 for "stai", 1000000 for
  "cryptodoge", 1000000000 for "shibgreen" and "littlelambocoin", and 1 for every other
  prefix.
\<close>

theorem parse_scales_amounts:
  "parse dateutil_parse self logs =
     sequence_exn (map (convert_match dateutil_parse (prefix self)) (findall (regex self) logs))
   \<and> (parse dateutil_parse self logs = Inr msgs \<longrightarrow>
        list_all2
          (\<lambda>match msg. \<exists>x. py_int (snd match) = Inr x
                         \<and> amount_mojos msg = x * multiplier (prefix self))
          (findall (regex self) logs) msgs)
   \<and> multiplier ''chives'' = 10000
   \<and> multiplier ''stai'' = 1000
   \<and> multiplier ''cryptodoge'' = 1000000
   \<and> multiplier ''shibgreen'' = 1000000000
   \<and> multiplier ''littlelambocoin'' = 1000000000
   \<and> (p \<notin> set [''chives'', ''stai'', ''cryptodoge'', ''shibgreen'', ''littlelambocoin'']
        \<longrightarrow> multiplier p = 1)"
proof (intro conjI impI)
  show eq: "parse dateutil_parse self logs =
     sequence_exn (map (convert_match dateutil_parse (prefix self)) (findall (regex self) logs))"
    by (simp add: parse_def parse_loop_eq split: sum.splits)
  show "list_all2
          (\<lambda>match msg. \<exists>x. py_int (snd match) = Inr x
                         \<and> amount_mojos msg = x * multiplier (prefix self))
          (findall (regex self) logs) msgs"
    if "parse dateutil_parse self logs = Inr msgs"
  proof -
    from that eq have "list_all2 (\<lambda>r v. r = Inr v)
        (map (convert_match dateutil_parse (prefix self)) (findall (regex self) logs)) msgs"
      by (simp add: sequence_exn_all2)
    then have "list_all2 (\<lambda>match msg. convert_match dateutil_parse (prefix self) match = Inr msg)
        (findall (regex self) logs) msgs"
      by (simp add: list_all2_map1)
    then show ?thesis
      by (rule list_all2_mono)
         (auto simp: convert_match_def bind_exn_def split: sum.splits)
  qed
  show "multiplier p = 1"
    if "p \<notin> set [''chives'', ''stai'', ''cryptodoge'', ''shibgreen'', ''littlelambocoin'']"
    using that by (simp add: multiplier_def)
qed (simp_all add: multiplier_def)

theorem parse_scales_amounts_witness:
  "parse keep_text \<lparr>prefix = ''chives'', regex = wallet_pattern ''chives''\<rparr> coin_line
     = Inr [\<lparr>timestamp = ''2021-05-26T12:00:28.253'', amount_mojos = 50000\<rparr>]
   \<and> list_all2
        (\<lambda>match msg. \<exists>x. py_int (snd match) = Inr x \<and> amount_mojos msg = x * 10000)
        [(''2021-05-26T12:00:28.253'', ''5'')]
        [\<lparr>timestamp = ''2021-05-26T12:00:28.253'', amount_mojos = 50000\<rparr>]
   \<and> multiplier ''chia'' = 1"
  using parse_scales_amounts [of keep_text
      "\<lparr>prefix = ''chives'', regex = wallet_pattern ''chives''\<rparr>" coin_line
      "[\<lparr>timestamp = ''2021-05-26T12:00:28.253'', amount_mojos = 50000\<rparr>]" "''chia''"]
  by (simp add: findall_coin_line convert_match_def bind_exn_def py_int_5 keep_text_def
        multiplier_def)

text \<open>
  C7, as amended. For a parser built by \<^verbatim>\<open>__init__\<close> and every log text: when no line
  matches the pattern, \<^verbatim>\<open>parse\<close> returns the empty list; and when every match has a
  non-empty amount text of at most 4300 digits (the interpreter's limit for \<^verbatim>\<open>int\<close>) and
  a timestamp text that the date parser accepts, \<^verbatim>\<open>parse\<close> returns a list with one record
  per match. It does not raise in either case.
\<close>

theorem parse_returns_on_well_formed_matches:
  "WalletAddedCoinParser_init parser_config = Inr self \<longrightarrow>
     (findall (regex self) logs = [] \<longrightarrow> parse dateutil_parse self logs = Inr [])
     \<and> (list_all (\<lambda>match. snd match \<noteq> [] \<and> length (snd match) \<le> int_max_str_digits
                            \<and> (\<exists>ts. dateutil_parse (fst match) = Inr ts))
           (findall (regex self) logs) \<longrightarrow>
         (\<exists>msgs. parse dateutil_parse self logs = Inr msgs
                \<and> length msgs = length (findall (regex self) logs)))"
proof (intro impI conjI)
  assume init: "WalletAddedCoinParser_init parser_config = Inr self"
  then obtain p where self: "self = \<lparr>prefix = p, regex = wallet_pattern p\<rparr>"
    by (auto simp: WalletAddedCoinParser_init_def split: option.splits)
  show "parse dateutil_parse self logs = Inr []" if "findall (regex self) logs = []"
    using that by (simp add: parse_def)
  show "\<exists>msgs. parse dateutil_parse self logs = Inr msgs
                \<and> length msgs = length (findall (regex self) logs)"
    if ok: "list_all (\<lambda>match. snd match \<noteq> [] \<and> length (snd match) \<le> int_max_str_digits
                            \<and> (\<exists>ts. dateutil_parse (fst match) = Inr ts))
           (findall (regex self) logs)"
  proof -
    have digits: "list_all (\<lambda>m. list_all is_digit (snd m)) (findall (regex self) logs)"
      by (simp add: self findall_wallet_pattern_digits)
    have "list_all (\<lambda>r. \<exists>v. r = Inr v)
            (map (convert_match dateutil_parse (prefix self)) (findall (regex self) logs))"
      unfolding list_all_iff
    proof
      fix r
      assume "r \<in> set (map (convert_match dateutil_parse (prefix self))
                          (findall (regex self) logs))"
      then obtain m where m: "m \<in> set (findall (regex self) logs)"
        "r = convert_match dateutil_parse (prefix self) m" by auto
      from m(1) ok digits have "snd m \<noteq> []" "list_all is_digit (snd m)"
        "length (snd m) \<le> int_max_str_digits" "\<exists>ts. dateutil_parse (fst m) = Inr ts"
        by (auto simp: list_all_iff)
      with py_int_digits [of "snd m"] m(2) show "\<exists>v. r = Inr v"
        by (auto simp: convert_match_def bind_exn_def)
    qed
    from sequence_exn_ok [OF this] show ?thesis
      by (auto simp: parse_def parse_loop_eq)
  qed
qed

theorem parse_returns_on_well_formed_matches_witness:
  "WalletAddedCoinParser_init (Some [''prefix'' \<mapsto> ''chives''])
     = Inr \<lparr>prefix = ''chives'', regex = wallet_pattern ''chives''\<rparr>
   \<and> parse keep_text \<lparr>prefix = ''chives'', regex = wallet_pattern ''chives''\<rparr>
       ''farmer: INFO ok'' = Inr []
   \<and> (\<exists>msgs. parse keep_text \<lparr>prefix = ''chives'', regex = wallet_pattern ''chives''\<rparr>
               coin_line = Inr msgs
             \<and> length msgs = 1)"
  using parse_returns_on_well_formed_matches [of "Some [''prefix'' \<mapsto> ''chives'']"
      "\<lparr>prefix = ''chives'', regex = wallet_pattern ''chives''\<rparr>" "''farmer: INFO ok''"
      keep_text]
    parse_returns_on_well_formed_matches [of "Some [''prefix'' \<mapsto> ''chives'']"
      "\<lparr>prefix = ''chives'', regex = wallet_pattern ''chives''\<rparr>" coin_line keep_text]
  by (simp add: WalletAddedCoinParser_init_def findall_no_match findall_coin_line
        keep_text_def int_max_str_digits_def)

text \<open>
  The claim as stated fails: on a coin line cut off after the key of the amount the
  amount group of the match is empty, \<^verbatim>\<open>int('')\<close> raises \<^verbatim>\<open>ValueError\<close>, and so does \<^verbatim>\<open>parse\<close>.
\<close>

theorem parse_raises_on_cut_line:
  "WalletAddedCoinParser_init (Some [''prefix'' \<mapsto> ''chia''])
     = Inr \<lparr>prefix = ''chia'', regex = wallet_pattern ''chia''\<rparr>
   \<and> parse keep_text \<lparr>prefix = ''chia'', regex = wallet_pattern ''chia''\<rparr> cut_line
     = Inl ValueError"
  by (simp add: WalletAddedCoinParser_init_def parse_def findall_cut_line py_int_empty)

end
